theory Spec2Isabelle
  imports Complex_Main
begin

section \<open>Python values\<close>

text \<open>
  The script is Python. A string is a \<^typ>\<open>string\<close> whose characters stand for the code
  points below 256. The values that travel through the script (cells of a table, parsed
  JSON, the entries of the result dictionaries) are \<open>pyval\<close>s. \<open>PNaN\<close> is the float
  \<open>nan\<close> that pandas stores in an empty cell, \<open>PFloat\<close> any other float.
  A dictionary is an association list with distinct keys, in insertion order.
\<close>

datatype pyval =
    PNone
  | PNaN
  | PBool bool
  | PInt int
  | PFloat real
  | PStr string
  | PList "pyval list"
  | PDict "(string \<times> pyval) list"

datatype py_error = FileNotFoundError | ValueError | KeyError | AttributeError

text \<open>Truth value of an object, as \<open>not x\<close> and \<open>x or y\<close> test it: \<open>nan\<close> is a non-zero float.\<close>

fun truthy :: "pyval \<Rightarrow> bool" where
  "truthy PNone = False"
| "truthy PNaN = True"
| "truthy (PBool b) = b"
| "truthy (PInt i) = (i \<noteq> 0)"
| "truthy (PFloat x) = (x \<noteq> 0)"
| "truthy (PStr s) = (s \<noteq> [])"
| "truthy (PList xs) = (xs \<noteq> [])"
| "truthy (PDict kvs) = (kvs \<noteq> [])"

text \<open>Decimal rendering of an integer, as an f-string prints it.\<close>

fun digits_of :: "nat \<Rightarrow> string" where
  "digits_of n =
     (if n < 10 then [char_of (48 + n)]
      else digits_of (n div 10) @ [char_of (48 + n mod 10)])"

declare digits_of.simps [simp del]

definition str_int :: "int \<Rightarrow> string" where
  "str_int i = (if i < 0 then CHR ''-'' # digits_of (nat (- i)) else digits_of (nat i))"

text \<open>
  \<open>str(x)\<close>, which is also what an f-string substitutes. The script only ever formats
  text, \<open>nan\<close>, \<open>None\<close> and integers (a cell of a loaded table is text or \<open>nan\<close>); the
  rendering of another float or of a container is not modelled and stands as a fixed
  text.
\<close>

fun py_str :: "pyval \<Rightarrow> string" where
  "py_str PNone = ''None''"
| "py_str PNaN = ''nan''"
| "py_str (PBool b) = (if b then ''True'' else ''False'')"
| "py_str (PInt i) = str_int i"
| "py_str (PFloat x) = ''<float>''"
| "py_str (PStr s) = s"
| "py_str (PList xs) = ''[...]''"
| "py_str (PDict kvs) = ''{...}''"

text \<open>
  \<open>ch.isdigit()\<close>: below code point 256 the digits are \<open>0\<close> to \<open>9\<close> and the superscripts
  two, three and one (U+00B2, U+00B3, U+00B9).
\<close>

definition isdigit :: "char \<Rightarrow> bool" where
  "isdigit ch =
     (let n = (of_char ch :: nat) in (48 \<le> n \<and> n \<le> 57) \<or> n = 178 \<or> n = 179 \<or> n = 185)"

text \<open>\<open>sep.join(parts)\<close> with the empty separator.\<close>

definition join_empty :: "string list \<Rightarrow> string" where
  "join_empty parts = concat parts"

section \<open>Configuration\<close>

definition BASE_URL :: string where
  "BASE_URL = ''https://api.cnpja.com''"

definition CNPJ_COLUMN_NAME :: string where
  "CNPJ_COLUMN_NAME = ''cnpj_normalizadoapi''"

definition MAX_REQUESTS_PER_MINUTE :: int where
  "MAX_REQUESTS_PER_MINUTE = 60"

definition START_INDEX :: nat where
  "START_INDEX = 0"

section \<open>Identifier normalizer\<close>

text \<open>
  A raw identifier is a cell of a table read with \<open>dtype=str\<close>: text, or missing
  (\<open>None\<close> here, for both \<open>nan\<close> and Python's \<open>None\<close>, which \<open>pd.isna\<close> does not
  tell apart). The result is \<open>None\<close> for Python's \<open>None\<close>.
\<close>

definition normalize_cnpj :: "string option \<Rightarrow> string option" where
  "normalize_cnpj cnpj_raw =
     (case cnpj_raw of
        None \<Rightarrow> None
      | Some s \<Rightarrow>
          (let digits = join_empty (map (\<lambda>ch. [ch]) (filter isdigit s))
           in if length digits = 14 then Some digits else None))"

section \<open>The outside world: clock, sleeping and the remote service\<close>

text \<open>
  Every effect of the script on the outside is an event of a trace, in the order the
  script performs it: a call of \<open>time.sleep\<close> with its duration, and an HTTP GET with its
  URL. The clock is read by \<open>time.time()\<close> and advanced by sleeping and by the time a
  request takes. Time is a real number of seconds (the rounding of floats is not
  modelled); what the script prints is not part of the model.
\<close>

datatype event = Sleep real | Get string

record world =
  clock :: real
  trace :: "event list"

text \<open>
  What one call of \<open>requests.get\<close> comes back with: an exception of the class
  \<open>RequestException\<close> with its description, or a response with its status code and what
  \<open>response.json()\<close> gives (\<open>None\<close> when it raises \<open>ValueError\<close>). The service is any
  function from the number of requests sent before and the URL to the time the request
  takes and its outcome, so that every course of replies is covered.
\<close>

datatype reply = RequestException string | Response int "pyval option"

type_synonym server = "nat \<Rightarrow> string \<Rightarrow> real \<times> reply"

fun is_Get :: "event \<Rightarrow> bool" where
  "is_Get (Get url) = True"
| "is_Get (Sleep d) = False"

definition n_requests :: "world \<Rightarrow> nat" where
  "n_requests w = length (filter is_Get (trace w))"

definition time_sleep :: "real \<Rightarrow> world \<Rightarrow> world" where
  "time_sleep d w = w\<lparr>clock := clock w + d, trace := trace w @ [Sleep d]\<rparr>"

definition requests_get :: "server \<Rightarrow> string \<Rightarrow> world \<Rightarrow> reply \<times> world" where
  "requests_get srv url w =
     (case srv (n_requests w) url of
        (d, r) \<Rightarrow> (r, w\<lparr>clock := clock w + d, trace := trace w @ [Get url]\<rparr>))"

section \<open>Lookup client\<close>

text \<open>
  The result envelope is the dictionary \<open>fetch_cnpj_data\<close> returns; its four keys are the
  fields of a record. \<open>data\<close> is \<open>PNone\<close> for Python's \<open>None\<close>.
\<close>

record lookup_result =
  success :: bool
  error :: "string option"
  http_status :: "int option"
  data :: pyval

text \<open>
  The loop \<open>for attempt in range(max_retries)\<close> over the attempt numbers still to run,
  with \<open>last_exception_str\<close> as it stands; the first equation is the code after the
  loop. A response returns from inside the loop; an exception of \<open>requests.get\<close> sleeps
  \<open>2 ** attempt\<close> seconds and goes on.
\<close>

fun fetch_attempts ::
  "server \<Rightarrow> string \<Rightarrow> nat list \<Rightarrow> string option \<Rightarrow> world \<Rightarrow> lookup_result \<times> world" where
  "fetch_attempts srv url [] last_exception_str w =
     (\<lparr>success = False,
       error = Some (''request_exception: '' @
                 (case last_exception_str of None \<Rightarrow> ''None'' | Some e \<Rightarrow> e)),
       http_status = None,
       data = PNone\<rparr>, w)"
| "fetch_attempts srv url (attempt # rest) last_exception_str w =
     (case requests_get srv url w of
        (Response status_code body, w1) \<Rightarrow>
          (let json_data = (case body of None \<Rightarrow> PNone | Some j \<Rightarrow> j) in
           if status_code = 200 \<and> json_data \<noteq> PNone
           then (\<lparr>success = True, error = None, http_status = Some 200,
                  data = json_data\<rparr>, w1)
           else (\<lparr>success = False, error = Some (''http_error_'' @ str_int status_code),
                  http_status = Some status_code, data = json_data\<rparr>, w1))
      | (RequestException e, w1) \<Rightarrow>
          fetch_attempts srv url rest (Some e) (time_sleep (2 ^ attempt) w1))"

definition fetch_cnpj_data :: "server \<Rightarrow> pyval \<Rightarrow> int \<Rightarrow> world \<Rightarrow> lookup_result \<times> world" where
  "fetch_cnpj_data srv cnpj max_retries w =
     fetch_attempts srv (BASE_URL @ ''/office/'' @ py_str cnpj) [0..<nat max_retries] None w"

text \<open>
  For the statements: the events of a run of failed attempts, each a GET followed by its
  backoff sleep.
\<close>

definition backoff_events :: "string \<Rightarrow> nat list \<Rightarrow> event list" where
  "backoff_events url attempts = concat (map (\<lambda>k. [Get url, Sleep (2 ^ k)]) attempts)"

section \<open>Rate limiter\<close>

text \<open>
  \<open>sleep_if_necessary\<close> reads the clock, sleeps when the counter has reached the cap and
  the window is younger than 60 seconds, and returns the new counter and window start.
\<close>

definition sleep_if_necessary :: "int \<Rightarrow> real \<Rightarrow> world \<Rightarrow> (int \<times> real) \<times> world" where
  "sleep_if_necessary request_count start_window w =
     (let now = clock w;
          elapsed = now - start_window
      in if request_count \<ge> MAX_REQUESTS_PER_MINUTE
         then (let w1 = (if elapsed < 60 then time_sleep (60 - elapsed) w else w)
               in ((0, clock w1), w1))
         else ((request_count, start_window), w))"

section \<open>Lookup with the retry on HTTP 429\<close>

text \<open>
  The \<open>while True\<close> loop at the call site, which both drivers hold in the same words (they
  differ in what they print only). \<open>attempts_429\<close> is the counter on entry to the loop
  body; \<open>fetch_cnpj_data\<close> is called with its default of 5 attempts.
\<close>

function query_cnpj :: "server \<Rightarrow> pyval \<Rightarrow> nat \<Rightarrow> world \<Rightarrow> lookup_result \<times> world" where
  "query_cnpj srv cnpj attempts_429 w =
     (case fetch_cnpj_data srv cnpj 5 w of
        (api_result, w1) \<Rightarrow>
          if http_status api_result = Some 429
          then (if attempts_429 + 1 \<ge> 3 then (api_result, w1)
                else query_cnpj srv cnpj (attempts_429 + 1) (time_sleep 60 w1))
          else (api_result, w1))"
  by pat_completeness auto
termination
  by (relation "measure (\<lambda>(srv, cnpj, attempts_429, w). 3 - attempts_429)") auto

declare query_cnpj.simps [simp del]

section \<open>Response flattener\<close>

text \<open>\<open>d.get(key)\<close>: the value or \<open>None\<close> on a dictionary, \<open>AttributeError\<close> on anything else.\<close>

fun py_get :: "pyval \<Rightarrow> string \<Rightarrow> py_error + pyval" where
  "py_get (PDict kvs) key = Inr (case map_of kvs key of None \<Rightarrow> PNone | Some v \<Rightarrow> v)"
| "py_get v key = Inl AttributeError"

text \<open>\<open>x or {}\<close>.\<close>

definition or_empty :: "pyval \<Rightarrow> pyval" where
  "or_empty x = (if truthy x then x else PDict [])"

text \<open>
  A dictionary display \<open>{k1: e1, k2: e2, ...}\<close>: the entries are evaluated in order and the
  first that raises ends the evaluation.
\<close>

fun dict_display :: "(string \<times> (py_error + pyval)) list \<Rightarrow> py_error + (string \<times> pyval) list" where
  "dict_display [] = Inr []"
| "dict_display ((k, Inl e) # rest) = Inl e"
| "dict_display ((k, Inr v) # rest) =
     (case dict_display rest of Inl e \<Rightarrow> Inl e | Inr kvs \<Rightarrow> Inr ((k, v) # kvs))"

text \<open>\<open>d[key] = value\<close>: in place when the key is there, at the end otherwise.\<close>

fun dict_set :: "(string \<times> pyval) list \<Rightarrow> string \<Rightarrow> pyval \<Rightarrow> (string \<times> pyval) list" where
  "dict_set [] key v = [(key, v)]"
| "dict_set ((k, x) # kvs) key v =
     (if k = key then (k, v) # kvs else (k, x) # dict_set kvs key v)"

definition opt_int :: "int option \<Rightarrow> pyval" where
  "opt_int x = (case x of None \<Rightarrow> PNone | Some i \<Rightarrow> PInt i)"

definition opt_str :: "string option \<Rightarrow> pyval" where
  "opt_str x = (case x of None \<Rightarrow> PNone | Some s \<Rightarrow> PStr s)"

definition extract_fields :: "lookup_result \<Rightarrow> py_error + (string \<times> pyval) list" where
  "extract_fields api_result =
     (let data0 = or_empty (data api_result) in
      (case py_get data0 ''company'' of
         Inl e \<Rightarrow> Inl e
       | Inr c \<Rightarrow>
      (case py_get data0 ''address'' of
         Inl e \<Rightarrow> Inl e
       | Inr a \<Rightarrow>
      (case py_get data0 ''mainActivity'' of
         Inl e \<Rightarrow> Inl e
       | Inr m \<Rightarrow>
      (let company = or_empty c; address = or_empty a; main_activity = or_empty m in
      (case py_get company ''size'' of
         Inl e \<Rightarrow> Inl e
       | Inr s \<Rightarrow>
      (let size0 = or_empty s in
        dict_display
          [(''api_success'', Inr (PBool (success api_result))),
           (''api_http_status'', Inr (opt_int (http_status api_result))),
           (''api_error'', Inr (opt_str (error api_result))),
           (''razao_social'', py_get company ''name''),
           (''nome_fantasia'', py_get company ''alias''),
           (''data_abertura'', py_get company ''openingDate''),
           (''natureza_juridica'', py_get company ''legalNature''),
           (''porte_id'', py_get size0 ''id''),
           (''porte_sigla'', py_get size0 ''acronym''),
           (''porte_descricao'', py_get size0 ''text''),
           (''cnae_principal_codigo'', py_get main_activity ''id''),
           (''cnae_principal_descricao'', py_get main_activity ''text''),
           (''endereco_logradouro'', py_get address ''street''),
           (''endereco_numero'', py_get address ''number''),
           (''endereco_complemento'', py_get address ''complement''),
           (''endereco_bairro'', py_get address ''district''),
           (''endereco_cidade'', py_get address ''city''),
           (''endereco_uf'', py_get address ''state''),
           (''endereco_cep'', py_get address ''zip''),
           (''situacao_cadastral'', py_get data0 ''status''),
           (''data_situacao_cadastral'', py_get data0 ''statusDate''),
           (''matriz_ou_filial'', py_get data0 ''headquarterOrBranch'')])))))))"


section \<open>Tables\<close>

text \<open>
  A pandas \<open>DataFrame\<close> with the default index (the row positions 0, 1, ...): the column
  labels and the rows, each row holding one cell per column in the order of the labels.
  A file is given parsed: a field is text, or missing (\<open>None\<close>). The cells of a loaded
  table are Python objects, as pandas keeps them in columns of the \<open>object\<close> type (which
  is what \<open>dtype=str\<close> gives): a \<open>None\<close> stored in such a cell stays \<open>None\<close>. A table
  built from a list of dictionaries gets the type of each column from its values, see
  \<open>infer_column\<close>. How pandas renders the cells as text when it writes a file is not
  modelled.
\<close>

record 'c frame =
  columns :: "string list"
  rows :: "'c list list"

text \<open>\<open>pd.read_csv(path, dtype=str)\<close>: a field becomes a \<open>str\<close>, a missing one \<open>nan\<close>.\<close>

definition read_csv :: "string option frame \<Rightarrow> pyval frame" where
  "read_csv file =
     \<lparr>columns = columns file,
      rows = map (map (\<lambda>c. case c of None \<Rightarrow> PNaN | Some s \<Rightarrow> PStr s)) (rows file)\<rparr>"

fun index_of :: "'a \<Rightarrow> 'a list \<Rightarrow> nat" where
  "index_of x [] = 0"
| "index_of x (y # ys) = (if x = y then 0 else Suc (index_of x ys))"

text \<open>
  \<open>row.get(col, None)\<close> on a row of a table with the labels \<open>cols\<close>; this is \<open>row[col]\<close>
  when the label is there.
\<close>

definition row_get :: "string list \<Rightarrow> pyval list \<Rightarrow> string \<Rightarrow> pyval" where
  "row_get cols row col =
     (if col \<in> set cols \<and> index_of col cols < length row then row ! index_of col cols
      else PNone)"

text \<open>
  What \<open>pd.isna\<close> and \<open>str\<close> make of a cell: missing (\<open>None\<close> and \<open>nan\<close>), or its text.
\<close>

definition cell_text :: "pyval \<Rightarrow> string option" where
  "cell_text c = (if c = PNone \<or> c = PNaN then None else Some (py_str c))"

text \<open>
  \<open>df[col] = values\<close>: the column is overwritten where it stands, or added as the last
  one.
\<close>

definition set_column :: "pyval frame \<Rightarrow> string \<Rightarrow> pyval list \<Rightarrow> pyval frame" where
  "set_column df col vals =
     (if col \<in> set (columns df)
      then df\<lparr>rows := map (\<lambda>(r, v). r[index_of col (columns df) := v]) (zip (rows df) vals)\<rparr>
      else df\<lparr>columns := columns df @ [col],
              rows := map (\<lambda>(r, v). r @ [v]) (zip (rows df) vals)\<rparr>)"

text \<open>
  \<open>df.at[idx, col] = val\<close>: the cell is overwritten; a label that is not there yet is
  added as the last column, with \<open>nan\<close> in every other row.
\<close>

definition at_set :: "pyval frame \<Rightarrow> nat \<Rightarrow> string \<Rightarrow> pyval \<Rightarrow> pyval frame" where
  "at_set df idx col val =
     (if col \<in> set (columns df)
      then df\<lparr>rows := (rows df)[idx := (rows df ! idx)[index_of col (columns df) := val]]\<rparr>
      else df\<lparr>columns := columns df @ [col],
              rows := (map (\<lambda>r. r @ [PNaN]) (rows df))[idx := (rows df ! idx) @ [val]]\<rparr>)"

text \<open>The labels of a list in the order of their first occurrence.\<close>

definition first_seen :: "string list \<Rightarrow> string list" where
  "first_seen xs = rev (remdups (rev xs))"

text \<open>
  The type pandas gives to a column built from Python objects, and what the cell \<open>v\<close>
  becomes in it. A column that holds only \<open>None\<close>, \<open>nan\<close>, integers and floats, with a
  float or a \<open>nan\<close> among them or with both a \<open>None\<close> and an integer, becomes a column of
  floats: \<open>None\<close> becomes \<open>nan\<close> and the integer \<open>200\<close> becomes \<open>200.0\<close>. Every other
  column keeps its objects: one of integers only, of truth values only, of \<open>None\<close> only,
  and one with a text, a container, or a truth value beside other values. (Integers
  are taken to fit 64 bits.)
\<close>

fun to_float :: "pyval \<Rightarrow> pyval" where
  "to_float PNone = PNaN"
| "to_float (PInt i) = PFloat (of_int i)"
| "to_float v = v"

fun is_number_or_null :: "pyval \<Rightarrow> bool" where
  "is_number_or_null PNone = True"
| "is_number_or_null PNaN = True"
| "is_number_or_null (PInt i) = True"
| "is_number_or_null (PFloat x) = True"
| "is_number_or_null v = False"

fun is_float :: "pyval \<Rightarrow> bool" where
  "is_float PNaN = True"
| "is_float (PFloat x) = True"
| "is_float v = False"

fun is_int :: "pyval \<Rightarrow> bool" where
  "is_int (PInt i) = True"
| "is_int v = False"

definition infer_column :: "pyval list \<Rightarrow> pyval \<Rightarrow> pyval" where
  "infer_column vals v =
     (if list_all is_number_or_null vals
         \<and> (list_ex is_float vals \<or> (list_ex (\<lambda>x. x = PNone) vals \<and> list_ex is_int vals))
      then to_float v else v)"

text \<open>
  \<open>pd.DataFrame(records)\<close> on a list of dictionaries: the columns are the keys in the
  order they are first seen, a record without a key has \<open>nan\<close> there, and each column
  gets its type from the values it holds.
\<close>

definition DataFrame :: "(string \<times> pyval) list list \<Rightarrow> pyval frame" where
  "DataFrame records =
     (let cols = first_seen (concat (map (map fst) records));
          cell = (\<lambda>r c. case map_of r c of None \<Rightarrow> PNaN | Some v \<Rightarrow> v)
      in \<lparr>columns = cols,
          rows = map (\<lambda>r. map (\<lambda>c. infer_column (map (\<lambda>r'. cell r' c) records) (cell r c)) cols)
                   records\<rparr>)"

text \<open>
  \<open>df.set_index(col)\<close>: the labels of the rows become the values of the column, which
  leaves the columns; \<open>KeyError\<close> when the column is not there (so for the table of an
  empty list of records, which has no column at all).
\<close>

definition set_index :: "pyval frame \<Rightarrow> string \<Rightarrow> py_error + (pyval list \<times> pyval frame)" where
  "set_index df col =
     (if col \<notin> set (columns df) then Inl KeyError
      else (let p = index_of col (columns df)
            in Inr (map (\<lambda>r. r ! p) (rows df),
                    \<lparr>columns = take p (columns df) @ drop (Suc p) (columns df),
                     rows = map (\<lambda>r. take p r @ drop (Suc p) r) (rows df)\<rparr>)))"

text \<open>
  \<open>left.join(right, how="left", rsuffix=suffix)\<close>, the left table with the default index
  and the right one with the labels \<open>labels\<close>: every left row, in order, once for each
  right row whose label is its position, or once with \<open>nan\<close> in the right columns when
  there is none. A right column whose label is also a left one gets the suffix.
\<close>

definition join_left ::
  "pyval frame \<Rightarrow> pyval list \<Rightarrow> pyval frame \<Rightarrow> string \<Rightarrow> pyval frame" where
  "join_left left labels right suffix =
     \<lparr>columns = columns left @
         map (\<lambda>c. if c \<in> set (columns left) then c @ suffix else c) (columns right),
      rows = concat (map (\<lambda>(i, l).
                 (case map snd (filter (\<lambda>(lab, r). lab = PInt (int i))
                                   (zip labels (rows right))) of
                    [] \<Rightarrow> [l @ replicate (length (columns right)) PNaN]
                  | ms \<Rightarrow> map (\<lambda>r. l @ r) ms))
               (zip [0..<length (rows left)] (rows left)))\<rparr>"

section \<open>Full run\<close>

text \<open>
  One turn of the loop of \<open>main\<close> over the rows, for the row \<open>row\<close> at position \<open>idx\<close>;
  the state is the request counter, the start of the window and the outside world. It
  gives the record appended to \<open>resultados\<close> and the new state, or the exception that
  ends the run.
\<close>

definition main_row ::
  "server \<Rightarrow> string list \<Rightarrow> nat \<Rightarrow> pyval list \<Rightarrow> int \<times> real \<times> world \<Rightarrow>
     py_error + ((string \<times> pyval) list \<times> int \<times> real \<times> world)" where
  "main_row srv cols idx row st =
     (case st of (request_count, window_start, w) \<Rightarrow>
       (let cnpj_raw = row_get cols row CNPJ_COLUMN_NAME;
            cnpj = row_get cols row ''cnpj_normalizado''
        in if \<not> truthy cnpj
           then Inr ([(''index_origem'', PInt (int idx)),
                      (''cnpj_original'', cnpj_raw),
                      (''cnpj_normalizado'', cnpj),
                      (''api_success'', PBool False),
                      (''api_http_status'', PNone),
                      (''api_error'', PStr ''cnpj_invalido'')],
                     request_count, window_start, w)
           else (case sleep_if_necessary request_count window_start w of
                   ((request_count1, window_start1), w1) \<Rightarrow>
                 (case query_cnpj srv cnpj 0 w1 of
                   (api_result, w2) \<Rightarrow>
                 (case extract_fields api_result of
                    Inl e \<Rightarrow> Inl e
                  | Inr fields0 \<Rightarrow>
                      Inr (dict_set (dict_set (dict_set fields0
                              ''index_origem'' (PInt (int idx)))
                              ''cnpj_original'' cnpj_raw)
                              ''cnpj_normalizado'' cnpj,
                           request_count1 + 1, window_start1,
                           time_sleep (1 / 2) w2))))))"

fun main_loop ::
  "server \<Rightarrow> string list \<Rightarrow> (nat \<times> pyval list) list \<Rightarrow>
     (string \<times> pyval) list list \<times> int \<times> real \<times> world \<Rightarrow>
     py_error + ((string \<times> pyval) list list \<times> int \<times> real \<times> world)" where
  "main_loop srv cols [] st = Inr st"
| "main_loop srv cols ((idx, row) # rest) (resultados, st) =
     (case main_row srv cols idx row st of
        Inl e \<Rightarrow> Inl e
      | Inr (fields0, st1) \<Rightarrow> main_loop srv cols rest (resultados @ [fields0], st1))"

text \<open>
  \<open>main\<close>: the input file (\<open>None\<close> when there is no such file) and the world at the start
  give the table written to the output file and the world at the end, or the exception
  that ends the run.
\<close>

definition main ::
  "server \<Rightarrow> string option frame option \<Rightarrow> world \<Rightarrow> py_error + (pyval frame \<times> world)" where
  "main srv input_file w =
     (case input_file of
        None \<Rightarrow> Inl FileNotFoundError
      | Some file \<Rightarrow>
          (let df0 = read_csv file in
           if CNPJ_COLUMN_NAME \<notin> set (columns df0) then Inl ValueError
           else
             (let df = set_column df0 ''cnpj_normalizado''
                         (map (\<lambda>r. opt_str (normalize_cnpj
                                  (cell_text (row_get (columns df0) r CNPJ_COLUMN_NAME))))
                              (rows df0))
              in case main_loop srv (columns df)
                        (drop START_INDEX (zip [0..<length (rows df)] (rows df)))
                        ([], 0, clock w, w) of
                   Inl e \<Rightarrow> Inl e
                 | Inr (resultados, request_count, window_start, w1) \<Rightarrow>
                     (case set_index (DataFrame resultados) ''index_origem'' of
                        Inl e \<Rightarrow> Inl e
                      | Inr (labels, right) \<Rightarrow>
                          Inr (join_left df labels right ''api'', w1)))))"

section \<open>Retry-only run\<close>

text \<open>\<open>s.lower()\<close> on the code points below 256.\<close>

definition char_lower :: "char \<Rightarrow> char" where
  "char_lower ch =
     (let n = (of_char ch :: nat)
      in if (65 \<le> n \<and> n \<le> 90) \<or> (192 \<le> n \<and> n \<le> 214) \<or> (216 \<le> n \<and> n \<le> 222)
         then char_of (n + 32) else ch)"

text \<open>The mask \<open>df_final["api_success"].astype(str).str.lower() != "true"\<close>, for one row.\<close>

definition mask_retry :: "string list \<Rightarrow> pyval list \<Rightarrow> bool" where
  "mask_retry cols row = (map char_lower (py_str (row_get cols row ''api_success'')) \<noteq> ''true'')"

text \<open>The loop \<open>for col, val in fields.items(): df_final.at[idx, col] = val\<close>.\<close>

fun at_set_all :: "pyval frame \<Rightarrow> nat \<Rightarrow> (string \<times> pyval) list \<Rightarrow> pyval frame" where
  "at_set_all df idx [] = df"
| "at_set_all df idx ((col, val) # rest) = at_set_all (at_set df idx col val) idx rest"

text \<open>
  One turn of the loop of \<open>reprocess_failed\<close>, for the row at position \<open>idx\<close> of
  \<open>df_final\<close>.
\<close>

definition retry_row ::
  "server \<Rightarrow> nat \<Rightarrow> pyval frame \<times> int \<times> real \<times> world \<Rightarrow>
     py_error + (pyval frame \<times> int \<times> real \<times> world)" where
  "retry_row srv idx st =
     (case st of (df_final, request_count, window_start, w) \<Rightarrow>
       (let row = rows df_final ! idx;
            cnpj_raw = row_get (columns df_final) row CNPJ_COLUMN_NAME;
            cnpj = row_get (columns df_final) row ''cnpj_normalizado''
        in if \<not> truthy cnpj
           then Inr (at_set (at_set df_final idx ''api_success'' (PBool False))
                        idx ''api_error'' (PStr ''cnpj_invalido_retry''),
                     request_count, window_start, w)
           else (case sleep_if_necessary request_count window_start w of
                   ((request_count1, window_start1), w1) \<Rightarrow>
                 (case query_cnpj srv cnpj 0 w1 of
                   (api_result, w2) \<Rightarrow>
                 (case extract_fields api_result of
                    Inl e \<Rightarrow> Inl e
                  | Inr fields0 \<Rightarrow>
                      Inr (at_set (at_set (at_set_all df_final idx fields0)
                              idx ''cnpj_original'' cnpj_raw)
                              idx ''cnpj_normalizado'' cnpj,
                           request_count1 + 1, window_start1, w2))))))"

fun retry_loop ::
  "server \<Rightarrow> nat list \<Rightarrow> pyval frame \<times> int \<times> real \<times> world \<Rightarrow>
     py_error + (pyval frame \<times> int \<times> real \<times> world)" where
  "retry_loop srv [] st = Inr st"
| "retry_loop srv (idx # rest) st =
     (case retry_row srv idx st of
        Inl e \<Rightarrow> Inl e
      | Inr st1 \<Rightarrow> retry_loop srv rest st1)"

text \<open>
  \<open>reprocess_failed\<close>: the output file of an earlier run (\<open>None\<close> when there is no such
  file) and the world at the start give the table the file is rewritten with (\<open>None\<close>
  when the function returns without writing, no row being selected) and the world at
  the end, or the exception that ends the run.
\<close>

definition reprocess_failed ::
  "server \<Rightarrow> string option frame option \<Rightarrow> world \<Rightarrow>
     py_error + (pyval frame option \<times> world)" where
  "reprocess_failed srv output_file w =
     (case output_file of
        None \<Rightarrow> Inl FileNotFoundError
      | Some file \<Rightarrow>
          (let df_final = read_csv file in
           if ''api_success'' \<notin> set (columns df_final) then Inl ValueError
           else
             (let retry_index = filter (\<lambda>i. mask_retry (columns df_final) (rows df_final ! i))
                                  [0..<length (rows df_final)]
              in if retry_index = [] then Inr (None, w)
                 else (case retry_loop srv retry_index (df_final, 0, clock w, w) of
                         Inl e \<Rightarrow> Inl e
                       | Inr (df1, request_count, window_start, w1) \<Rightarrow> Inr (Some df1, w1)))))"


text \<open>
  For the statements: the columns the retry-only run writes in a row it looks up, which
  are the keys of the flattened fields and the two identifier columns.
\<close>

definition enrichment_columns :: "string list" where
  "enrichment_columns =
     [''api_success'', ''api_http_status'', ''api_error'',
      ''razao_social'', ''nome_fantasia'', ''data_abertura'', ''natureza_juridica'',
      ''porte_id'', ''porte_sigla'', ''porte_descricao'',
      ''cnae_principal_codigo'', ''cnae_principal_descricao'',
      ''endereco_logradouro'', ''endereco_numero'', ''endereco_complemento'',
      ''endereco_bairro'', ''endereco_cidade'', ''endereco_uf'', ''endereco_cep'',
      ''situacao_cadastral'', ''data_situacao_cadastral'', ''matriz_ou_filial'',
      ''cnpj_original'', ''cnpj_normalizado'']"

text \<open>
  For the statements: a payload flattens when \<open>extract_fields\<close> goes through on it without
  an exception, which only depends on the payload: it is \<open>None\<close> or another false value,
  or an object whose \<open>company\<close>, \<open>address\<close> and \<open>mainActivity\<close> entries, and the \<open>size\<close>
  entry of \<open>company\<close>, are objects or false values.
\<close>

definition flattens :: "pyval \<Rightarrow> bool" where
  "flattens j =
     (case extract_fields \<lparr>success = False, error = None, http_status = None, data = j\<rparr> of
        Inl e \<Rightarrow> False
      | Inr f \<Rightarrow> True)"


section \<open>Theorems\<close>



lemma n_requests_get [simp]:
  "n_requests (snd (requests_get srv url w)) = Suc (n_requests w)"
  by (simp add: requests_get_def n_requests_def split: prod.splits)

lemma n_requests_sleep [simp]: "n_requests (time_sleep d w) = n_requests w"
  by (simp add: time_sleep_def n_requests_def)

lemma trace_requests_get [simp]:
  "trace (snd (requests_get srv url w)) = trace w @ [Get url]"
  by (simp add: requests_get_def split: prod.splits)

lemma fst_requests_get [simp]:
  "fst (requests_get srv url w) = snd (srv (n_requests w) url)"
  by (simp add: requests_get_def split: prod.splits)

lemma trace_sleep [simp]: "trace (time_sleep d w) = trace w @ [Sleep d]"
  by (simp add: time_sleep_def)

lemma fetch_attempts_exhausted:
  assumes "\<forall>k<length as. snd (srv (n_requests w + k) url) = RequestException (e k)"
  shows "fst (fetch_attempts srv url as prev w) =
           \<lparr>success = False,
            error = Some (''request_exception: '' @
               (case (if as = [] then prev else Some (e (length as - 1))) of
                  None \<Rightarrow> ''None'' | Some x \<Rightarrow> x)),
            http_status = None, data = PNone\<rparr>
         \<and> trace (snd (fetch_attempts srv url as prev w)) = trace w @ backoff_events url as"
  using assms
proof (induction as arbitrary: w prev e)
  case Nil
  then show ?case by (simp add: backoff_events_def)
next
  case (Cons a as)
  obtain r w1 where g: "requests_get srv url w = (r, w1)" by (cases "requests_get srv url w")
  have r: "r = RequestException (e 0)"
    using Cons.prems[rule_format, of 0] fst_requests_get[of srv url w] g by simp
  have n1: "n_requests w1 = Suc (n_requests w)" and t1: "trace w1 = trace w @ [Get url]"
    using n_requests_get[of srv url w] trace_requests_get[of srv url w] g by simp_all
  let ?w2 = "time_sleep (2 ^ a) w1"
  have "\<forall>k<length as. snd (srv (n_requests ?w2 + k) url) = RequestException (e (Suc k))"
    using Cons.prems n1 by auto
  from Cons.IH[OF this, of "Some (e 0)"] show ?case
    using g r t1 by (auto simp: backoff_events_def)
qed

lemma fetch_attempts_answered:
  assumes "k < length as"
    and "\<forall>j<k. snd (srv (n_requests w + j) url) = RequestException (e j)"
    and "snd (srv (n_requests w + k) url) = Response status_code body"
  shows "fst (fetch_attempts srv url as prev w) =
           (let json_data = (case body of None \<Rightarrow> PNone | Some j \<Rightarrow> j) in
            if status_code = 200 \<and> json_data \<noteq> PNone
            then \<lparr>success = True, error = None, http_status = Some 200, data = json_data\<rparr>
            else \<lparr>success = False, error = Some (''http_error_'' @ str_int status_code),
                  http_status = Some status_code, data = json_data\<rparr>)
         \<and> trace (snd (fetch_attempts srv url as prev w)) =
             trace w @ backoff_events url (take k as) @ [Get url]"
  using assms
proof (induction as arbitrary: w prev e k)
  case Nil
  then show ?case by simp
next
  case (Cons a as)
  obtain r w1 where g: "requests_get srv url w = (r, w1)" by (cases "requests_get srv url w")
  have n1: "n_requests w1 = Suc (n_requests w)" and t1: "trace w1 = trace w @ [Get url]"
    using n_requests_get[of srv url w] trace_requests_get[of srv url w] g by simp_all
  have r0: "r = snd (srv (n_requests w) url)"
    using fst_requests_get[of srv url w] g by simp
  show ?case
  proof (cases k)
    case 0
    then have "r = Response status_code body" using Cons.prems r0 by simp
    then show ?thesis using g t1 0 by (simp add: backoff_events_def Let_def)
  next
    case (Suc k')
    then have r: "r = RequestException (e 0)"
      using Cons.prems(2)[rule_format, of 0] r0 by simp
    let ?w2 = "time_sleep (2 ^ a) w1"
    have a1: "k' < length as" using Cons.prems Suc by simp
    have a2: "\<forall>j<k'. snd (srv (n_requests ?w2 + j) url) = RequestException (e (Suc j))"
      using Cons.prems Suc n1 by auto
    have a3: "snd (srv (n_requests ?w2 + k') url) = Response status_code body"
      using Cons.prems Suc n1 by simp
    from Cons.IH[OF a1 a2 a3, of "Some (e 0)"] show ?thesis
      using g r t1 Suc by (auto simp: backoff_events_def Let_def)
  qed
qed


text \<open>
  C3. When every one of the \<open>max_retries\<close> attempts raises a network error, the client has
  sent \<open>max_retries\<close> requests, has slept \<open>2 ^ k\<close> seconds after failed attempt \<open>k\<close>
  (1 s, 2 s, 4 s, ...), and returns the failure envelope whose error text carries the
  description of the last exception and whose HTTP status is absent. When the first \<open>k\<close>
  attempts raise and attempt \<open>k\<close> is answered, the events are the \<open>k\<close> failed requests,
  each followed by its sleep, and one more request; a 200 answer with a parsed body
  gives the success envelope.
\<close>

theorem fetch_cnpj_data_network_retry:
  fixes srv :: server
  assumes url: "url = BASE_URL @ ''/office/'' @ py_str cnpj"
  shows
    "(0 < max_retries \<and>
      (\<forall>k<nat max_retries. snd (srv (n_requests w + k) url) = RequestException (e k))
      \<longrightarrow>
        fst (fetch_cnpj_data srv cnpj max_retries w) =
          \<lparr>success = False,
           error = Some (''request_exception: '' @ e (nat max_retries - 1)),
           http_status = None, data = PNone\<rparr>
        \<and> trace (snd (fetch_cnpj_data srv cnpj max_retries w)) =
            trace w @ backoff_events url [0..<nat max_retries])
     \<and>
     (k < nat max_retries \<and>
      (\<forall>j<k. snd (srv (n_requests w + j) url) = RequestException (e j)) \<and>
      snd (srv (n_requests w + k) url) = Response status_code body
      \<longrightarrow>
        trace (snd (fetch_cnpj_data srv cnpj max_retries w)) =
          trace w @ backoff_events url [0..<k] @ [Get url]
        \<and> (status_code = 200 \<and> body \<noteq> None \<and> body \<noteq> Some PNone \<longrightarrow>
             fst (fetch_cnpj_data srv cnpj max_retries w) =
               \<lparr>success = True, error = None, http_status = Some 200,
                data = the body\<rparr>))"
proof (intro conjI impI)
  assume h: "0 < max_retries \<and>
      (\<forall>k<nat max_retries. snd (srv (n_requests w + k) url) = RequestException (e k))"
  then have all: "\<forall>k<length [0..<nat max_retries].
      snd (srv (n_requests w + k) url) = RequestException (e k)"
    by simp
  have ne: "[0..<nat max_retries] \<noteq> []" using h by simp
  note ex = fetch_attempts_exhausted[where as = "[0..<nat max_retries]" and srv = srv
      and w = w and url = url and e = e and prev = None, OF all]
  from ex ne
  show "fst (fetch_cnpj_data srv cnpj max_retries w) =
          \<lparr>success = False,
           error = Some (''request_exception: '' @ e (nat max_retries - 1)),
           http_status = None, data = PNone\<rparr>"
    by (simp add: fetch_cnpj_data_def url)
  from ex
  show "trace (snd (fetch_cnpj_data srv cnpj max_retries w)) =
            trace w @ backoff_events url [0..<nat max_retries]"
    by (simp add: fetch_cnpj_data_def url)
next
  assume h: "k < nat max_retries \<and>
      (\<forall>j<k. snd (srv (n_requests w + j) url) = RequestException (e j)) \<and>
      snd (srv (n_requests w + k) url) = Response status_code body"
  then have k: "k < length [0..<nat max_retries]" by simp
  have tk: "take k [0..<nat max_retries] = [0..<k]"
    using h by simp
  note ans = fetch_attempts_answered[where as = "[0..<nat max_retries]" and srv = srv
      and w = w and url = url and e = e and prev = None and k = k
      and status_code = status_code and body = body,
      OF k conjunct1[OF conjunct2[OF h]] conjunct2[OF conjunct2[OF h]]]
  from ans tk
  show "trace (snd (fetch_cnpj_data srv cnpj max_retries w)) =
          trace w @ backoff_events url [0..<k] @ [Get url]"
    by (simp add: fetch_cnpj_data_def url)
  assume ok: "status_code = 200 \<and> body \<noteq> None \<and> body \<noteq> Some PNone"
  then obtain j where j: "body = Some j" "j \<noteq> PNone" by auto
  from ans j ok
  show "fst (fetch_cnpj_data srv cnpj max_retries w) =
               \<lparr>success = True, error = None, http_status = Some 200,
                data = the body\<rparr>"
    by (simp add: fetch_cnpj_data_def url)
qed

theorem fetch_cnpj_data_network_retry_witness:
  "fetch_cnpj_data
      (\<lambda>n url. (1 / 4, if n < 2 then RequestException ''timed out''
                        else Response 200 (Some (PDict [(''status'', PStr ''ACTIVE'')]))))
      (PStr ''12345678000195'') 5 \<lparr>clock = 0, trace = []\<rparr>
    = (\<lparr>success = True, error = None, http_status = Some 200,
        data = PDict [(''status'', PStr ''ACTIVE'')]\<rparr>,
       \<lparr>clock = 15 / 4,
        trace = [Get ''https://api.cnpja.com/office/12345678000195'', Sleep 1,
                 Get ''https://api.cnpja.com/office/12345678000195'', Sleep 2,
                 Get ''https://api.cnpja.com/office/12345678000195'']\<rparr>)
   \<and> fst (fetch_cnpj_data (\<lambda>n url. (0, RequestException ''no route''))
        (PStr ''12345678000195'') 3 \<lparr>clock = 0, trace = []\<rparr>)
      = \<lparr>success = False, error = Some ''request_exception: no route'',
         http_status = None, data = PNone\<rparr>
   \<and> trace (snd (fetch_cnpj_data (\<lambda>n url. (0, RequestException ''no route''))
        (PStr ''12345678000195'') 3 \<lparr>clock = 0, trace = []\<rparr>))
      = [Get ''https://api.cnpja.com/office/12345678000195'', Sleep 1,
         Get ''https://api.cnpja.com/office/12345678000195'', Sleep 2,
         Get ''https://api.cnpja.com/office/12345678000195'', Sleep 4]"
proof -
  have u: "''https://api.cnpja.com/office/12345678000195''
      = BASE_URL @ ''/office/'' @ py_str (PStr ''12345678000195'')"
    by (simp add: BASE_URL_def)
  have run: "fetch_cnpj_data
      (\<lambda>n url. (1 / 4, if n < 2 then RequestException ''timed out''
                        else Response 200 (Some (PDict [(''status'', PStr ''ACTIVE'')]))))
      (PStr ''12345678000195'') 5 \<lparr>clock = 0, trace = []\<rparr>
    = (\<lparr>success = True, error = None, http_status = Some 200,
        data = PDict [(''status'', PStr ''ACTIVE'')]\<rparr>,
       \<lparr>clock = 15 / 4,
        trace = [Get ''https://api.cnpja.com/office/12345678000195'', Sleep 1,
                 Get ''https://api.cnpja.com/office/12345678000195'', Sleep 2,
                 Get ''https://api.cnpja.com/office/12345678000195'']\<rparr>)"
    by (simp add: fetch_cnpj_data_def BASE_URL_def upt_rec requests_get_def n_requests_def
        time_sleep_def)
  from fetch_cnpj_data_network_retry[OF u, of 3 "\<lambda>n url. (0, RequestException ''no route'')"
      "\<lparr>clock = 0, trace = []\<rparr>" "\<lambda>k. ''no route''"]
  have "fst (fetch_cnpj_data (\<lambda>n url. (0, RequestException ''no route''))
        (PStr ''12345678000195'') 3 \<lparr>clock = 0, trace = []\<rparr>)
      = \<lparr>success = False, error = Some ''request_exception: no route'',
         http_status = None, data = PNone\<rparr>
   \<and> trace (snd (fetch_cnpj_data (\<lambda>n url. (0, RequestException ''no route''))
        (PStr ''12345678000195'') 3 \<lparr>clock = 0, trace = []\<rparr>))
      = [Get ''https://api.cnpja.com/office/12345678000195'', Sleep 1,
         Get ''https://api.cnpja.com/office/12345678000195'', Sleep 2,
         Get ''https://api.cnpja.com/office/12345678000195'', Sleep 4]"
    by (simp add: backoff_events_def upt_rec)
  with run show ?thesis by blast
qed


text \<open>
  C4. When an attempt, the first or one after network errors, is answered with a status
  other than 200, or with status 200 and a body that does not parse (or parses to
  \<open>null\<close>), the client returns at once: the failure envelope carries that status and
  what was parsed (absent when nothing was), and the last event of the call is that
  request, with no sleep and no further request after it.
\<close>

theorem fetch_cnpj_data_http_failure:
  fixes srv :: server
  assumes url: "url = BASE_URL @ ''/office/'' @ py_str cnpj"
    and k: "k < nat max_retries"
    and before: "\<forall>j<k. snd (srv (n_requests w + j) url) = RequestException (e j)"
    and reply: "snd (srv (n_requests w + k) url) = Response status_code body"
    and bad: "status_code \<noteq> 200 \<or> body = None \<or> body = Some PNone"
  shows
    "fst (fetch_cnpj_data srv cnpj max_retries w) =
       \<lparr>success = False, error = Some (''http_error_'' @ str_int status_code),
        http_status = Some status_code,
        data = (case body of None \<Rightarrow> PNone | Some j \<Rightarrow> j)\<rparr>
     \<and> trace (snd (fetch_cnpj_data srv cnpj max_retries w)) =
         trace w @ backoff_events url [0..<k] @ [Get url]"
proof -
  have kl: "k < length [0..<nat max_retries]" using k by simp
  have tk: "take k [0..<nat max_retries] = [0..<k]"
    using k by simp
  note ans = fetch_attempts_answered[where as = "[0..<nat max_retries]" and srv = srv
      and w = w and url = url and e = e and prev = None and k = k
      and status_code = status_code and body = body, OF kl before reply]
  have cond: "\<not> (status_code = 200 \<and> (case body of None \<Rightarrow> PNone | Some j \<Rightarrow> j) \<noteq> PNone)"
    using bad by (auto split: option.splits)
  from ans tk cond show ?thesis
    by (simp add: fetch_cnpj_data_def url Let_def)
qed

theorem fetch_cnpj_data_http_failure_witness:
  "fst (fetch_cnpj_data
      (\<lambda>n url. (1 / 2, if n < 1 then RequestException ''reset''
                        else Response 404 (Some (PDict [(''message'', PStr ''not found'')]))))
      (PStr ''12345678000195'') 5 \<lparr>clock = 0, trace = []\<rparr>)
    = \<lparr>success = False, error = Some ''http_error_404'', http_status = Some 404,
        data = PDict [(''message'', PStr ''not found'')]\<rparr>
   \<and> trace (snd (fetch_cnpj_data
      (\<lambda>n url. (1 / 2, if n < 1 then RequestException ''reset''
                        else Response 404 (Some (PDict [(''message'', PStr ''not found'')]))))
      (PStr ''12345678000195'') 5 \<lparr>clock = 0, trace = []\<rparr>))
    = [Get ''https://api.cnpja.com/office/12345678000195'', Sleep 1,
       Get ''https://api.cnpja.com/office/12345678000195'']"
proof -
  let ?srv = "\<lambda>(n::nat) (url::string). (1 / 2 :: real, if n < 1 then RequestException ''reset''
                        else Response 404 (Some (PDict [(''message'', PStr ''not found'')])))"
  let ?w = "\<lparr>clock = 0, trace = []\<rparr>"
  let ?r = "fetch_cnpj_data ?srv (PStr ''12345678000195'') 5 ?w"
  have u: "''https://api.cnpja.com/office/12345678000195''
      = BASE_URL @ ''/office/'' @ py_str (PStr ''12345678000195'')"
    by (simp add: BASE_URL_def)
  have s404: "str_int 404 = ''404''"
    by code_simp
  have n0: "n_requests ?w = 0" by (simp add: n_requests_def)
  have "fst ?r = \<lparr>success = False, error = Some (''http_error_'' @ str_int 404),
        http_status = Some 404,
        data = (case Some (PDict [(''message'', PStr ''not found'')]) of
                  None \<Rightarrow> PNone | Some j \<Rightarrow> j)\<rparr>
     \<and> trace (snd ?r) = trace ?w @
         backoff_events ''https://api.cnpja.com/office/12345678000195'' [0..<1] @
         [Get ''https://api.cnpja.com/office/12345678000195'']"
    by (rule fetch_cnpj_data_http_failure[OF u, where e = "\<lambda>k. ''reset''"])
       (simp_all add: n0)
  then show ?thesis
    by (simp add: s404 backoff_events_def)
qed

text \<open>
  C6. When the counter has reached the cap of requests per minute, the limiter sleeps for
  what is left of the 60 seconds since the window started (it does not sleep when they
  are over already) and returns the counter 0 and, as the new window start, the clock
  after the sleep, which is no earlier than 60 seconds after the old window start. Below
  the cap it returns the counter and the window start as they are, and nothing happens.
\<close>

theorem sleep_if_necessary_contract:
  "sleep_if_necessary request_count start_window w =
     (if request_count \<ge> MAX_REQUESTS_PER_MINUTE
      then ((0, max (clock w) (start_window + 60)),
            w\<lparr>clock := max (clock w) (start_window + 60),
              trace := trace w @
                (if clock w - start_window < 60
                 then [Sleep (60 - (clock w - start_window))] else [])\<rparr>)
      else ((request_count, start_window), w))"
  by (simp add: sleep_if_necessary_def time_sleep_def Let_def max_def)

theorem sleep_if_necessary_contract_witness:
  "sleep_if_necessary 60 100 \<lparr>clock = 130, trace = []\<rparr> =
     ((0, 160), \<lparr>clock = 160, trace = [Sleep 30]\<rparr>)
   \<and> sleep_if_necessary 59 100 \<lparr>clock = 130, trace = []\<rparr> =
     ((59, 100), \<lparr>clock = 130, trace = []\<rparr>)"
  using sleep_if_necessary_contract[of 60 100 "\<lparr>clock = 130, trace = []\<rparr>"]
    sleep_if_necessary_contract[of 59 100 "\<lparr>clock = 130, trace = []\<rparr>"]
  by (simp add: MAX_REQUESTS_PER_MINUTE_def)

lemma fetch_attempts_status:
  "fetch_attempts srv url as prev w = (r, w') \<Longrightarrow> http_status r = Some st \<Longrightarrow> st \<noteq> 200 \<Longrightarrow>
     success r = False \<and> error r = Some (''http_error_'' @ str_int st)"
proof (induction as arbitrary: prev w)
  case Nil
  then show ?case by auto
next
  case (Cons a as)
  obtain rep w1 where g: "requests_get srv url w = (rep, w1)"
    by (cases "requests_get srv url w")
  show ?case
  proof (cases rep)
    case (RequestException e)
    with Cons.prems g have "fetch_attempts srv url as (Some e) (time_sleep (2 ^ a) w1) = (r, w')"
      by simp
    from Cons.IH[OF this Cons.prems(2,3)] show ?thesis .
  next
    case (Response status_code body)
    with Cons.prems g show ?thesis
      by (auto simp: Let_def split: if_splits)
  qed
qed

lemma fetch_cnpj_data_status:
  "fetch_cnpj_data srv cnpj n w = (r, w') \<Longrightarrow> http_status r = Some st \<Longrightarrow> st \<noteq> 200 \<Longrightarrow>
     success r = False \<and> error r = Some (''http_error_'' @ str_int st)"
  unfolding fetch_cnpj_data_def by (rule fetch_attempts_status)

lemma query_cnpj_three:
  assumes "fetch_cnpj_data srv cnpj 5 w1 = (r1, v1)"
    and "fetch_cnpj_data srv cnpj 5 (time_sleep 60 v1) = (r2, v2)"
    and "fetch_cnpj_data srv cnpj 5 (time_sleep 60 v2) = (r3, v3)"
  shows "query_cnpj srv cnpj 0 w1 =
           (if http_status r1 \<noteq> Some 429 then (r1, v1)
            else if http_status r2 \<noteq> Some 429 then (r2, v2)
            else (r3, v3))"
proof -
  have two: "query_cnpj srv cnpj 2 (time_sleep 60 v2) = (r3, v3)"
    using assms(3) by (subst query_cnpj.simps) simp
  have one: "query_cnpj srv cnpj 1 (time_sleep 60 v1) =
      (if http_status r2 \<noteq> Some 429 then (r2, v2) else (r3, v3))"
    using assms(2) two by (subst query_cnpj.simps) (simp add: numeral_2_eq_2)
  show ?thesis
    using assms(1) one by (subst query_cnpj.simps) simp
qed

lemma dict_display_Inr_Cons:
  "dict_display ((k, Inr v) # rest) = Inr f \<Longrightarrow> \<exists>f'. f = (k, v) # f' \<and> dict_display rest = Inr f'"
  by (auto split: sum.splits)

lemma extract_fields_envelope:
  assumes "extract_fields r = Inr f"
  shows "\<exists>f'. f = (''api_success'', PBool (success r)) #
                  (''api_http_status'', opt_int (http_status r)) #
                  (''api_error'', opt_str (error r)) # f'"
proof -
  from assms obtain rest where
    "dict_display ((''api_success'', Inr (PBool (success r))) #
                   (''api_http_status'', Inr (opt_int (http_status r))) #
                   (''api_error'', Inr (opt_str (error r))) # rest) = Inr f"
    unfolding extract_fields_def Let_def by (auto split: sum.splits)
  then show ?thesis
    by (auto split: sum.splits)
qed


text \<open>
  The loop both drivers hold at the call site, for any service: when the first lookup,
  the lookup after a sleep of 60 seconds, and the lookup after a second sleep of 60
  seconds each come back with HTTP status 429, the loop ends with the result of that
  third lookup and the world as the third lookup left it (three lookups, two sleeps of
  60 seconds between them, nothing after). That result is a failure with the error text
  \<open>http_error_429\<close>.
\<close>

theorem query_cnpj_three_429:
  assumes a1: "fetch_cnpj_data srv cnpj 5 w1 = (r1, v1)"
    and s1: "http_status r1 = Some 429"
    and a2: "fetch_cnpj_data srv cnpj 5 (time_sleep 60 v1) = (r2, v2)"
    and s2: "http_status r2 = Some 429"
    and a3: "fetch_cnpj_data srv cnpj 5 (time_sleep 60 v2) = (r3, v3)"
    and s3: "http_status r3 = Some 429"
  shows
    "query_cnpj srv cnpj 0 w1 = (r3, v3)
     \<and> success r3 = False \<and> error r3 = Some ''http_error_429''"
proof -
  have q: "query_cnpj srv cnpj 0 w1 = (r3, v3)"
    using query_cnpj_three[OF a1 a2 a3] s1 s2 by simp
  have s429: "str_int 429 = ''429''"
    by code_simp
  have f: "success r3 = False \<and> error r3 = Some ''http_error_429''"
    using fetch_cnpj_data_status[OF a3 s3] s429 by simp
  from q f show ?thesis by blast
qed


theorem query_cnpj_three_429_witness:
  "query_cnpj (\<lambda>n url. (0, Response 429 (Some (PDict [(''message'', PStr ''slow down'')]))))
      (PStr ''12345678000195'') 0 \<lparr>clock = 0, trace = []\<rparr> =
     (\<lparr>success = False, error = Some ''http_error_429'', http_status = Some 429,
       data = PDict [(''message'', PStr ''slow down'')]\<rparr>,
      \<lparr>clock = 120,
       trace = [Get ''https://api.cnpja.com/office/12345678000195'', Sleep 60,
                Get ''https://api.cnpja.com/office/12345678000195'', Sleep 60,
                Get ''https://api.cnpja.com/office/12345678000195'']\<rparr>)"
proof -
  let ?srv = "\<lambda>(n::nat) (url::string).
      (0::real, Response 429 (Some (PDict [(''message'', PStr ''slow down'')])))"
  let ?u = "''https://api.cnpja.com/office/12345678000195''"
  let ?r = "\<lparr>success = False, error = Some ''http_error_429'', http_status = Some 429,
       data = PDict [(''message'', PStr ''slow down'')]\<rparr>"
  have s429: "str_int 429 = ''429''"
    by code_simp
  have f1: "fetch_cnpj_data ?srv (PStr ''12345678000195'') 5 \<lparr>clock = 0, trace = []\<rparr> =
      (?r, \<lparr>clock = 0, trace = [Get ?u]\<rparr>)"
    by (simp add: fetch_cnpj_data_def BASE_URL_def upt_rec requests_get_def s429)
  have f2: "fetch_cnpj_data ?srv (PStr ''12345678000195'') 5
        (time_sleep 60 \<lparr>clock = 0, trace = [Get ?u]\<rparr>) =
      (?r, \<lparr>clock = 60, trace = [Get ?u, Sleep 60, Get ?u]\<rparr>)"
    by (simp add: fetch_cnpj_data_def BASE_URL_def upt_rec requests_get_def s429 time_sleep_def)
  have f3: "fetch_cnpj_data ?srv (PStr ''12345678000195'') 5
        (time_sleep 60 \<lparr>clock = 60, trace = [Get ?u, Sleep 60, Get ?u]\<rparr>) =
      (?r, \<lparr>clock = 120, trace = [Get ?u, Sleep 60, Get ?u, Sleep 60, Get ?u]\<rparr>)"
    by (simp add: fetch_cnpj_data_def BASE_URL_def upt_rec requests_get_def s429 time_sleep_def)
  have st: "http_status ?r = Some 429" by simp
  from query_cnpj_three_429[OF f1 st f2 st f3 st]
  show ?thesis by blast
qed

text \<open>
  C8, as amended. Both entry points end with \<open>FileNotFoundError\<close> when their file is
  missing. The full run ends with \<open>ValueError\<close> when the identifier column is not in the
  header; the retry-only run ends with \<open>ValueError\<close> when the column \<open>api_success\<close> is not
  in the header, and that is the only column it checks. In each case the run ends before
  the loop over the rows is entered.
\<close>

theorem drivers_fail_fast:
  "main srv None w = Inl FileNotFoundError
   \<and> (CNPJ_COLUMN_NAME \<notin> set (columns file) \<longrightarrow> main srv (Some file) w = Inl ValueError)
   \<and> reprocess_failed srv None w = Inl FileNotFoundError
   \<and> (''api_success'' \<notin> set (columns file) \<longrightarrow>
        reprocess_failed srv (Some file) w = Inl ValueError)"
  by (simp add: main_def reprocess_failed_def read_csv_def Let_def)

theorem drivers_fail_fast_witness:
  "main (\<lambda>n url. (0, Response 404 None))
     (Some \<lparr>columns = [''name''], rows = [[Some ''ACME'']]\<rparr>) \<lparr>clock = 0, trace = []\<rparr>
     = Inl ValueError
   \<and> reprocess_failed (\<lambda>n url. (0, Response 404 None))
     (Some \<lparr>columns = [''name''], rows = [[Some ''ACME'']]\<rparr>) \<lparr>clock = 0, trace = []\<rparr>
     = Inl ValueError"
  using drivers_fail_fast[of "\<lambda>n url. (0, Response 404 None)" "\<lparr>clock = 0, trace = []\<rparr>"
      "\<lparr>columns = [''name''], rows = [[Some ''ACME'']]\<rparr>"]
  by (simp add: CNPJ_COLUMN_NAME_def)

text \<open>
  C8 as stated fails for the retry-only run: on a file without the identifier
  column it does not end with an exception; it looks the selected row up and rewrites
  the table.
\<close>

theorem reprocess_failed_without_identifier_column:
  "CNPJ_COLUMN_NAME \<notin> set [''cnpj_normalizado'', ''api_success'', ''api_error'']
   \<and> reprocess_failed (\<lambda>n url. (0, Response 404 None))
     (Some \<lparr>columns = [''cnpj_normalizado'', ''api_success'', ''api_error''],
            rows = [[Some ''12345678000195'', Some ''False'', Some ''http_error_500'']]\<rparr>)
     \<lparr>clock = 0, trace = []\<rparr>
   = Inr (Some
       \<lparr>columns =
          [''cnpj_normalizado'', ''api_success'', ''api_error'',
           ''api_http_status'', ''razao_social'', ''nome_fantasia'',
           ''data_abertura'', ''natureza_juridica'', ''porte_id'',
           ''porte_sigla'', ''porte_descricao'', ''cnae_principal_codigo'',
           ''cnae_principal_descricao'', ''endereco_logradouro'',
           ''endereco_numero'', ''endereco_complemento'',
           ''endereco_bairro'', ''endereco_cidade'', ''endereco_uf'',
           ''endereco_cep'', ''situacao_cadastral'',
           ''data_situacao_cadastral'', ''matriz_ou_filial'',
           ''cnpj_original''],
        rows =
          [[PStr ''12345678000195'', PBool False, PStr ''http_error_404'',
            PInt 404, PNone, PNone, PNone, PNone, PNone, PNone, PNone,
            PNone, PNone, PNone, PNone, PNone, PNone, PNone, PNone, PNone,
            PNone, PNone, PNone, PNone]]\<rparr>,
      \<lparr>clock = 0, trace = [Get ''https://api.cnpja.com/office/12345678000195'']\<rparr>)"
  by code_simp

text \<open>
  C10, as amended. In both drivers one turn of the loop adds exactly one to the request
  counter when the row is looked up, whatever the number of HTTP requests the lookup
  made (the limiter may have reset the counter to 0 before); a row with an unusable
  identifier leaves the counter as it is.
\<close>

theorem request_count_once_per_row:
  "(main_row srv cols idx row (request_count, window_start, w) =
       Inr (fields0, request_count', window_start', w')
     \<longrightarrow> request_count' =
          (if \<not> truthy (row_get cols row ''cnpj_normalizado'') then request_count
           else if request_count \<ge> MAX_REQUESTS_PER_MINUTE then 1
           else request_count + 1))
   \<and> (retry_row srv idx (df, request_count, window_start, w) =
       Inr (df', request_count', window_start', w')
     \<longrightarrow> request_count' =
          (if \<not> truthy (row_get (columns df) (rows df ! idx) ''cnpj_normalizado'')
           then request_count
           else if request_count \<ge> MAX_REQUESTS_PER_MINUTE then 1
           else request_count + 1))"
  by (auto simp: main_row_def retry_row_def Let_def sleep_if_necessary_def
      split: prod.splits sum.splits if_splits)

theorem request_count_once_per_row_witness:
  "main_row (\<lambda>n url. (0, if n < 1 then RequestException ''timed out''
                         else Response 200 (Some (PDict [(''status'', PStr ''ACTIVE'')]))))
     [''cnpj_normalizadoapi'', ''cnpj_normalizado''] 0
     [PStr ''12.345.678/0001-95'', PStr ''12345678000195'']
     (0, 0, \<lparr>clock = 0, trace = []\<rparr>)
   = Inr ([(''api_success'', PBool True), (''api_http_status'', PInt 200),
       (''api_error'', PNone), (''razao_social'', PNone),
       (''nome_fantasia'', PNone), (''data_abertura'', PNone),
       (''natureza_juridica'', PNone), (''porte_id'', PNone),
       (''porte_sigla'', PNone), (''porte_descricao'', PNone),
       (''cnae_principal_codigo'', PNone),
       (''cnae_principal_descricao'', PNone),
       (''endereco_logradouro'', PNone), (''endereco_numero'', PNone),
       (''endereco_complemento'', PNone), (''endereco_bairro'', PNone),
       (''endereco_cidade'', PNone), (''endereco_uf'', PNone),
       (''endereco_cep'', PNone), (''situacao_cadastral'', PStr ''ACTIVE''),
       (''data_situacao_cadastral'', PNone), (''matriz_ou_filial'', PNone),
       (''index_origem'', PInt 0),
       (''cnpj_original'', PStr ''12.345.678/0001-95''),
       (''cnpj_normalizado'', PStr ''12345678000195'')],
      1, 0,
      \<lparr>clock = 3 / 2,
       trace = [Get ''https://api.cnpja.com/office/12345678000195'', Sleep 1,
                Get ''https://api.cnpja.com/office/12345678000195'', Sleep (1 / 2)]\<rparr>)
   \<and> (1::int) = (if \<not> truthy (row_get [''cnpj_normalizadoapi'', ''cnpj_normalizado'']
                        [PStr ''12.345.678/0001-95'', PStr ''12345678000195'']
                        ''cnpj_normalizado'') then 0
                else if 0 \<ge> MAX_REQUESTS_PER_MINUTE then 1 else 0 + 1)"
proof -
  let ?srv = "\<lambda>(n::nat) (url::string). (0::real, if n < 1 then RequestException ''timed out''
                         else Response 200 (Some (PDict [(''status'', PStr ''ACTIVE'')])))"
  let ?rec = "[(''api_success'', PBool True), (''api_http_status'', PInt 200),
       (''api_error'', PNone), (''razao_social'', PNone),
       (''nome_fantasia'', PNone), (''data_abertura'', PNone),
       (''natureza_juridica'', PNone), (''porte_id'', PNone),
       (''porte_sigla'', PNone), (''porte_descricao'', PNone),
       (''cnae_principal_codigo'', PNone),
       (''cnae_principal_descricao'', PNone),
       (''endereco_logradouro'', PNone), (''endereco_numero'', PNone),
       (''endereco_complemento'', PNone), (''endereco_bairro'', PNone),
       (''endereco_cidade'', PNone), (''endereco_uf'', PNone),
       (''endereco_cep'', PNone), (''situacao_cadastral'', PStr ''ACTIVE''),
       (''data_situacao_cadastral'', PNone), (''matriz_ou_filial'', PNone),
       (''index_origem'', PInt 0),
       (''cnpj_original'', PStr ''12.345.678/0001-95''),
       (''cnpj_normalizado'', PStr ''12345678000195'')]"
  let ?w' = "\<lparr>clock = 3 / 2,
       trace = [Get ''https://api.cnpja.com/office/12345678000195'', Sleep 1,
                Get ''https://api.cnpja.com/office/12345678000195'', Sleep (1 / 2)]\<rparr>"
  have run: "main_row ?srv [''cnpj_normalizadoapi'', ''cnpj_normalizado''] 0
     [PStr ''12.345.678/0001-95'', PStr ''12345678000195'']
     (0, 0, \<lparr>clock = 0, trace = []\<rparr>) = Inr (?rec, 1, 0, ?w')"
    by code_simp
  from request_count_once_per_row[THEN conjunct1, rule_format, OF run] run
  show ?thesis by blast
qed

text \<open>
  C10 as stated fails: a lookup that needs two HTTP requests (a network error,
  then an answer) raises the counter by one.
\<close>

theorem request_count_not_per_request:
  "main_row (\<lambda>n url. (0, if n < 1 then RequestException ''timed out''
                         else Response 200 (Some (PDict [(''status'', PStr ''ACTIVE'')]))))
     [''cnpj_normalizadoapi'', ''cnpj_normalizado''] 0
     [PStr ''12.345.678/0001-95'', PStr ''12345678000195'']
     (0, 0, \<lparr>clock = 0, trace = []\<rparr>)
   = Inr ([(''api_success'', PBool True), (''api_http_status'', PInt 200),
       (''api_error'', PNone), (''razao_social'', PNone),
       (''nome_fantasia'', PNone), (''data_abertura'', PNone),
       (''natureza_juridica'', PNone), (''porte_id'', PNone),
       (''porte_sigla'', PNone), (''porte_descricao'', PNone),
       (''cnae_principal_codigo'', PNone),
       (''cnae_principal_descricao'', PNone),
       (''endereco_logradouro'', PNone), (''endereco_numero'', PNone),
       (''endereco_complemento'', PNone), (''endereco_bairro'', PNone),
       (''endereco_cidade'', PNone), (''endereco_uf'', PNone),
       (''endereco_cep'', PNone), (''situacao_cadastral'', PStr ''ACTIVE''),
       (''data_situacao_cadastral'', PNone), (''matriz_ou_filial'', PNone),
       (''index_origem'', PInt 0),
       (''cnpj_original'', PStr ''12.345.678/0001-95''),
       (''cnpj_normalizado'', PStr ''12345678000195'')],
      1, 0,
      \<lparr>clock = 3 / 2,
       trace = [Get ''https://api.cnpja.com/office/12345678000195'', Sleep 1,
                Get ''https://api.cnpja.com/office/12345678000195'', Sleep (1 / 2)]\<rparr>)
   \<and> n_requests \<lparr>clock = 3 / 2,
       trace = [Get ''https://api.cnpja.com/office/12345678000195'', Sleep 1,
                Get ''https://api.cnpja.com/office/12345678000195'', Sleep (1 / 2)]\<rparr>
       = n_requests \<lparr>clock = 0, trace = []\<rparr> + 2"
  by code_simp

text \<open>
  C7. The retry-only run at the output file of a full run over one row with the
  identifier \<open>123\<close>, which normalizes to absent: the file holds an empty field for the
  normalized identifier, the retry-only run reads it as \<open>nan\<close>, \<open>not cnpj\<close> is false for
  \<open>nan\<close>, and the row is looked up at the service under the identifier \<open>nan\<close> and
  overwritten with the result of that lookup instead of the marker
  \<open>cnpj_invalido_retry\<close>.
\<close>

theorem reprocess_failed_queries_nan:
  "normalize_cnpj (Some ''123'') = None
   \<and> reprocess_failed (\<lambda>n url. (0, Response 404 None))
     (Some \<lparr>columns = [''cnpj_normalizadoapi'', ''cnpj_normalizado'', ''cnpj_original'',
                        ''cnpj_normalizadoapi.1'', ''api_success'', ''api_http_status'',
                        ''api_error''],
            rows = [[Some ''123'', None, Some ''123'', None, Some ''False'', None,
                     Some ''cnpj_invalido'']]\<rparr>)
     \<lparr>clock = 0, trace = []\<rparr>
   = Inr (Some
       \<lparr>columns =
          [''cnpj_normalizadoapi'', ''cnpj_normalizado'', ''cnpj_original'',
           ''cnpj_normalizadoapi.1'', ''api_success'', ''api_http_status'',
           ''api_error'', ''razao_social'', ''nome_fantasia'',
           ''data_abertura'', ''natureza_juridica'', ''porte_id'',
           ''porte_sigla'', ''porte_descricao'', ''cnae_principal_codigo'',
           ''cnae_principal_descricao'', ''endereco_logradouro'',
           ''endereco_numero'', ''endereco_complemento'',
           ''endereco_bairro'', ''endereco_cidade'', ''endereco_uf'',
           ''endereco_cep'', ''situacao_cadastral'',
           ''data_situacao_cadastral'', ''matriz_ou_filial''],
        rows =
          [[PStr ''123'', PNaN, PStr ''123'', PNaN, PBool False, PInt 404,
            PStr ''http_error_404'', PNone, PNone, PNone, PNone, PNone,
            PNone, PNone, PNone, PNone, PNone, PNone, PNone, PNone, PNone,
            PNone, PNone, PNone, PNone, PNone]]\<rparr>,
      \<lparr>clock = 0, trace = [Get ''https://api.cnpja.com/office/nan'']\<rparr>)"
  by code_simp

text \<open>
  The full run on a row whose identifier normalizes to absent: the turn of the loop
  appends the record of a failure with the error text \<open>cnpj_invalido\<close> and no HTTP status,
  and leaves the request counter, the window start and the outside world as they are,
  so that no request is sent and nothing sleeps.
\<close>

theorem main_row_invalid_identifier:
  assumes "row_get cols row ''cnpj_normalizado'' = opt_str (normalize_cnpj cnpj_raw)"
    and "normalize_cnpj cnpj_raw = None"
  shows "main_row srv cols idx row (request_count, window_start, w) =
           Inr ([(''index_origem'', PInt (int idx)),
                 (''cnpj_original'', row_get cols row CNPJ_COLUMN_NAME),
                 (''cnpj_normalizado'', PNone),
                 (''api_success'', PBool False),
                 (''api_http_status'', PNone),
                 (''api_error'', PStr ''cnpj_invalido'')],
                request_count, window_start, w)"
  using assms by (simp add: main_row_def opt_str_def Let_def)

theorem main_row_invalid_identifier_witness:
  "main_row (\<lambda>n url. (0, Response 404 None)) [''cnpj_normalizadoapi'', ''cnpj_normalizado'']
      7 [PStr ''123'', PNone] (3, 10, \<lparr>clock = 12, trace = []\<rparr>) =
           Inr ([(''index_origem'', PInt 7),
                 (''cnpj_original'', PStr ''123''),
                 (''cnpj_normalizado'', PNone),
                 (''api_success'', PBool False),
                 (''api_http_status'', PNone),
                 (''api_error'', PStr ''cnpj_invalido'')],
                3, 10, \<lparr>clock = 12, trace = []\<rparr>)"
proof -
  have n: "normalize_cnpj (Some ''123'') = None"
    by code_simp
  have c: "row_get [''cnpj_normalizadoapi'', ''cnpj_normalizado''] [PStr ''123'', PNone]
      ''cnpj_normalizado'' = opt_str (normalize_cnpj (Some ''123''))"
    by (simp add: n row_get_def opt_str_def)
  have r: "row_get [''cnpj_normalizadoapi'', ''cnpj_normalizado''] [PStr ''123'', PNone]
      CNPJ_COLUMN_NAME = PStr ''123''"
    by (simp add: row_get_def CNPJ_COLUMN_NAME_def)
  from main_row_invalid_identifier[OF c n, of "\<lambda>n url. (0, Response 404 None)" 7 3 10
      "\<lparr>clock = 12, trace = []\<rparr>"] r
  show ?thesis by simp
qed

lemma map_of_dict_set:
  "map_of (dict_set kvs k v) k' = (if k' = k then Some v else map_of kvs k')"
  by (induction kvs) auto

lemma main_row_label:
  assumes "main_row srv cols idx row st = Inr (fields0, st')"
  shows "map_of fields0 ''index_origem'' = Some (PInt (int idx))"
  using assms
  by (auto simp: main_row_def Let_def map_of_dict_set split: prod.splits sum.splits if_splits)

lemma main_loop_labels:
  "main_loop srv cols irs (res, st) = Inr (res', st') \<Longrightarrow>
     map (\<lambda>r. map_of r ''index_origem'') res' =
       map (\<lambda>r. map_of r ''index_origem'') res @ map (\<lambda>ir. Some (PInt (int (fst ir)))) irs"
proof (induction irs arbitrary: res st)
  case Nil
  then show ?case by simp
next
  case (Cons ir irs)
  obtain idx row where ir: "ir = (idx, row)" by (cases ir)
  from Cons.prems ir obtain fields0 st1 where
    r: "main_row srv cols idx row st = Inr (fields0, st1)"
    and l: "main_loop srv cols irs (res @ [fields0], st1) = Inr (res', st')"
    by (auto split: sum.splits)
  from Cons.IH[OF l] main_row_label[OF r] ir show ?case by simp
qed

lemma index_of_less: "x \<in> set xs \<Longrightarrow> index_of x xs < length xs"
  by (induction xs) auto

lemma nth_index_of: "x \<in> set xs \<Longrightarrow> xs ! index_of x xs = x"
  by (induction xs) auto

lemma filter_zip_distinct:
  "distinct labels \<Longrightarrow> length (filter (\<lambda>(lab, r). lab = x) (zip labels rs)) \<le> 1"
proof (induction labels arbitrary: rs)
  case Nil
  then show ?case by simp
next
  case (Cons l labels)
  show ?case
  proof (cases rs)
    case Nil
    then show ?thesis by simp
  next
    case (Cons r rs')
    show ?thesis
    proof (cases "l = x")
      case True
      then have "x \<notin> set labels" using Cons.prems by simp
      then have "filter (\<lambda>(lab, r). lab = x) (zip labels rs') = []"
        by (auto simp: filter_empty_conv dest: set_zip_leftD)
      then show ?thesis using True Cons by simp
    next
      case False
      then show ?thesis using Cons.IH[of rs'] Cons.prems Cons by simp
    qed
  qed
qed

lemma concat_singletons:
  "(\<forall>x\<in>set xs. length (g x) = 1) \<Longrightarrow> concat (map g xs) = map (\<lambda>x. hd (g x)) xs"
proof (induction xs)
  case Nil
  then show ?case by simp
next
  case (Cons x xs)
  then have "length (g x) = 1" by simp
  then have "g x = [hd (g x)]" by (cases "g x") auto
  then show ?case using Cons by simp
qed


lemma join_left_rows:
  assumes d: "distinct labels"
  shows "length (rows (join_left left labels right suffix)) = length (rows left)
     \<and> (\<forall>i<length (rows left).
           \<exists>e. rows (join_left left labels right suffix) ! i = rows left ! i @ e)"
proof -
  define g where "g = (\<lambda>(i :: nat, l :: pyval list).
      (case map snd (filter (\<lambda>(lab, r). lab = PInt (int i)) (zip labels (rows right))) of
         [] \<Rightarrow> [l @ replicate (length (columns right)) PNaN]
       | ms \<Rightarrow> map (\<lambda>r. l @ r) ms))"
  let ?xs = "zip [0..<length (rows left)] (rows left)"
  have one: "length (g x) = 1 \<and> (\<exists>e. hd (g x) = snd x @ e)" for x
  proof -
    obtain i l where x: "x = (i, l)" by (cases x)
    let ?ms = "map snd (filter (\<lambda>(lab, r). lab = PInt (int i)) (zip labels (rows right)))"
    have le: "length ?ms \<le> 1"
      using filter_zip_distinct[OF d, of "PInt (int i)" "rows right"] by simp
    show ?thesis
    proof (cases ?ms)
      case Nil
      then show ?thesis by (simp add: g_def x)
    next
      case (Cons m ms)
      with le have "ms = []" by simp
      with Cons show ?thesis by (simp add: g_def x)
    qed
  qed
  have rows_eq: "rows (join_left left labels right suffix) = concat (map g ?xs)"
    by (simp add: join_left_def g_def)
  have c: "concat (map g ?xs) = map (\<lambda>x. hd (g x)) ?xs"
    by (rule concat_singletons) (simp add: one)
  have len: "length (rows (join_left left labels right suffix)) = length (rows left)"
    by (simp add: rows_eq c)
  have nth: "\<exists>e. rows (join_left left labels right suffix) ! i = rows left ! i @ e"
    if "i < length (rows left)" for i
  proof -
    have "rows (join_left left labels right suffix) ! i = hd (g (?xs ! i))"
      using that by (simp add: rows_eq c)
    moreover have "snd (?xs ! i) = rows left ! i" using that by simp
    ultimately show ?thesis using one[of "?xs ! i"] by auto
  qed
  from len nth show ?thesis by blast
qed

lemma set_column_rows:
  assumes "length vals = length (rows df)"
  shows "length (rows (set_column df c vals)) = length (rows df)
     \<and> (\<forall>i<length (rows df). \<forall>j<length (rows df ! i).
           j < length (columns df) \<and> columns df ! j \<noteq> c \<longrightarrow>
           j < length (rows (set_column df c vals) ! i) \<and>
           rows (set_column df c vals) ! i ! j = rows df ! i ! j)"
proof (cases "c \<in> set (columns df)")
  case True
  have "rows (set_column df c vals) ! i ! j = rows df ! i ! j
      \<and> j < length (rows (set_column df c vals) ! i)"
    if "i < length (rows df)" "j < length (rows df ! i)" "columns df ! j \<noteq> c" for i j
  proof -
    have "j \<noteq> index_of c (columns df)"
      using nth_index_of[OF True] that(3) by auto
    then show ?thesis
      using that assms True by (simp add: set_column_def)
  qed
  then show ?thesis using assms True by (simp add: set_column_def)
next
  case False
  then show ?thesis using assms by (simp add: set_column_def nth_append)
qed

lemma infer_column_ints:
  assumes "\<forall>x\<in>set vals. is_int x"
  shows "infer_column vals v = v"
proof -
  have "\<not> is_float x \<and> x \<noteq> PNone" if "x \<in> set vals" for x
    using assms that by (cases x) auto
  then have "\<not> list_ex is_float vals" and "\<not> list_ex (\<lambda>x. x = PNone) vals"
    by (auto simp: list_ex_iff)
  then show ?thesis
    by (simp add: infer_column_def)
qed

lemma set_index_DataFrame:
  assumes "set_index (DataFrame records) col = Inr (labels, right)"
  shows "labels = map (infer_column
            (map (\<lambda>r. case map_of r col of None \<Rightarrow> PNaN | Some v \<Rightarrow> v) records))
          (map (\<lambda>r. case map_of r col of None \<Rightarrow> PNaN | Some v \<Rightarrow> v) records)"
proof -
  let ?cols = "first_seen (concat (map (map fst) records))"
  from assms have m: "col \<in> set ?cols"
    by (auto simp: set_index_def DataFrame_def Let_def split: if_splits)
  have p: "index_of col ?cols < length ?cols" "?cols ! index_of col ?cols = col"
    using index_of_less[OF m] nth_index_of[OF m] by simp_all
  from assms m have "labels = map (\<lambda>r. r ! index_of col ?cols) (rows (DataFrame records))"
    by (auto simp: set_index_def DataFrame_def Let_def split: if_splits)
  then show ?thesis
    using p by (simp add: DataFrame_def Let_def)
qed


lemma main_loop_distinct_labels:
  assumes l: "main_loop srv cols (drop s (zip [0..<length rs] rs)) ([], st) = Inr (resultados, st')"
    and x: "set_index (DataFrame resultados) ''index_origem'' = Inr (labels, right)"
  shows "distinct labels"
proof -
  let ?irs = "drop s (zip [0..<length rs] rs)"
  have m: "map (\<lambda>r. map_of r ''index_origem'') resultados =
      map (\<lambda>ir. Some (PInt (int (fst ir)))) ?irs"
    using main_loop_labels[OF l] by simp
  let ?vals = "map (\<lambda>r. case map_of r ''index_origem'' of None \<Rightarrow> PNaN | Some v \<Rightarrow> v)
      resultados"
  have "?vals = map (\<lambda>x. case x of None \<Rightarrow> PNaN | Some v \<Rightarrow> v)
      (map (\<lambda>r. map_of r ''index_origem'') resultados)"
    by simp
  also have "\<dots> = map (\<lambda>i. PInt (int i)) (map fst ?irs)"
    unfolding m by simp
  also have "map fst ?irs = drop s [0..<length rs]"
    by (simp add: drop_map[symmetric])
  finally have vals: "?vals = map (\<lambda>i. PInt (int i)) (drop s [0..<length rs])" .
  have "\<forall>x\<in>set ?vals. is_int x"
    unfolding vals by auto
  then have "map (infer_column ?vals) ?vals = ?vals"
    by (simp add: infer_column_ints map_idI)
  moreover have "labels = map (infer_column ?vals) ?vals"
    by (rule set_index_DataFrame[OF x])
  ultimately have lab: "labels = map (\<lambda>i. PInt (int i)) (drop s [0..<length rs])"
    using vals by simp
  have "inj_on (\<lambda>i. PInt (int i)) (set (drop s [0..<length rs]))"
    by (rule inj_onI) simp
  then show ?thesis
    unfolding lab by (simp add: distinct_map)
qed

text \<open>
  Whenever the full run writes its output table, whatever the service answered for
  the rows, the table has exactly one row for each row of the input table, in the order
  of the input: the row at position \<open>i\<close> of the output carries, in the same columns, the
  cells of the row at position \<open>i\<close> of the input (text as text, a missing field as
  \<open>nan\<close>), the column \<open>cnpj_normalizado\<close> apart, which the run computes itself.
\<close>

theorem main_preserves_rows:
  assumes run: "main srv (Some file) w = Inr (df_final, w')"
  shows "length (rows df_final) = length (rows file)
     \<and> (\<forall>i<length (rows file). \<forall>j<length (rows file ! i).
           j < length (columns file) \<and> columns file ! j \<noteq> ''cnpj_normalizado'' \<longrightarrow>
           j < length (rows df_final ! i) \<and>
           rows df_final ! i ! j =
             (case rows file ! i ! j of None \<Rightarrow> PNaN | Some s \<Rightarrow> PStr s))"
proof -
  let ?loaded = "read_csv file"
  let ?vals = "map (\<lambda>r. opt_str (normalize_cnpj
                  (cell_text (row_get (columns ?loaded) r CNPJ_COLUMN_NAME)))) (rows ?loaded)"
  let ?df = "set_column ?loaded ''cnpj_normalizado'' ?vals"
  have c0: "columns ?loaded = columns file"
    and r0: "rows ?loaded = map (map (\<lambda>c. case c of None \<Rightarrow> PNaN | Some s \<Rightarrow> PStr s)) (rows file)"
    by (simp_all add: read_csv_def)
  have lv: "length ?vals = length (rows ?loaded)" by simp
  note sc = set_column_rows[OF lv, of "''cnpj_normalizado''"]
  from run obtain resultados st' labels right where
    l: "main_loop srv (columns ?df) (drop START_INDEX (zip [0..<length (rows ?df)] (rows ?df)))
          ([], 0, clock w, w) = Inr (resultados, st')"
    and x: "set_index (DataFrame resultados) ''index_origem'' = Inr (labels, right)"
    and out: "df_final = join_left ?df labels right ''api''"
    unfolding main_def Let_def
    by (auto split: if_splits sum.splits prod.splits)
  have d: "distinct labels"
    by (rule main_loop_distinct_labels[OF l x])
  note j = join_left_rows[OF d, of ?df right "''api''"]
  have len: "length (rows df_final) = length (rows file)"
    using j sc by (simp add: out r0)
  have cell: "j < length (rows df_final ! i) \<and> rows df_final ! i ! j =
             (case rows file ! i ! j of None \<Rightarrow> PNaN | Some s \<Rightarrow> PStr s)"
    if i: "i < length (rows file)" and jr: "j < length (rows file ! i)"
      and jc: "j < length (columns file)" and nm: "columns file ! j \<noteq> ''cnpj_normalizado''"
    for i j
  proof -
    have i0: "i < length (rows ?loaded)" and j0: "j < length (rows ?loaded ! i)"
      using i jr by (simp_all add: r0)
    from sc i0 j0 jc nm
    have a: "j < length (rows ?df ! i)" and b: "rows ?df ! i ! j = rows ?loaded ! i ! j"
      by (simp_all add: c0)
    have i1: "i < length (rows ?df)" using sc i0 by simp
    from j i1 obtain e where e: "rows df_final ! i = rows ?df ! i @ e"
      unfolding out by blast
    have "rows ?loaded ! i ! j = (case rows file ! i ! j of None \<Rightarrow> PNaN | Some s \<Rightarrow> PStr s)"
      using i jr by (simp add: r0)
    with a b e show ?thesis by (simp add: nth_append)
  qed
  from len cell show ?thesis by blast
qed


theorem main_preserves_rows_witness:
  "main (\<lambda>n url. (0, Response 200
              (Some (PDict [(''company'', PDict [(''name'', PStr ''ACME SA'')])]))))
      (Some \<lparr>columns = [''nome'', ''cnpj_normalizadoapi''],
             rows = [[Some ''ACME'', Some ''12.345.678/0001-95''], [Some ''Foo'', None]]\<rparr>)
      \<lparr>clock = 0, trace = []\<rparr>
    = Inr (\<lparr>columns =
         [''nome'', ''cnpj_normalizadoapi'', ''cnpj_normalizado'',
          ''api_success'', ''api_http_status'', ''api_error'',
          ''razao_social'', ''nome_fantasia'', ''data_abertura'',
          ''natureza_juridica'', ''porte_id'', ''porte_sigla'',
          ''porte_descricao'', ''cnae_principal_codigo'',
          ''cnae_principal_descricao'', ''endereco_logradouro'',
          ''endereco_numero'', ''endereco_complemento'',
          ''endereco_bairro'', ''endereco_cidade'', ''endereco_uf'',
          ''endereco_cep'', ''situacao_cadastral'',
          ''data_situacao_cadastral'', ''matriz_ou_filial'',
          ''cnpj_original'', ''cnpj_normalizadoapi''],
         rows =
           [[PStr ''ACME'', PStr ''12.345.678/0001-95'',
             PStr ''12345678000195'', PBool True, PFloat 200, PNone,
             PStr ''ACME SA'', PNaN, PNaN, PNaN, PNaN, PNaN, PNaN,
             PNaN, PNaN, PNaN, PNaN, PNaN, PNaN, PNaN, PNaN, PNaN,
             PNaN, PNaN, PNaN, PStr ''12.345.678/0001-95'',
             PStr ''12345678000195''],
            [PStr ''Foo'', PNaN, PNone, PBool False, PNaN,
             PStr ''cnpj_invalido'', PNaN, PNaN, PNaN, PNaN, PNaN, PNaN,
             PNaN, PNaN, PNaN, PNaN, PNaN, PNaN, PNaN, PNaN, PNaN, PNaN,
             PNaN, PNaN, PNaN, PNaN, PNone]]\<rparr>,
      \<lparr>clock = 1 / 2,
         trace = [Get ''https://api.cnpja.com/office/12345678000195'', Sleep (1 / 2)]\<rparr>)
   \<and> length (rows (\<lparr>columns =
         [''nome'', ''cnpj_normalizadoapi'', ''cnpj_normalizado'',
          ''api_success'', ''api_http_status'', ''api_error'',
          ''razao_social'', ''nome_fantasia'', ''data_abertura'',
          ''natureza_juridica'', ''porte_id'', ''porte_sigla'',
          ''porte_descricao'', ''cnae_principal_codigo'',
          ''cnae_principal_descricao'', ''endereco_logradouro'',
          ''endereco_numero'', ''endereco_complemento'',
          ''endereco_bairro'', ''endereco_cidade'', ''endereco_uf'',
          ''endereco_cep'', ''situacao_cadastral'',
          ''data_situacao_cadastral'', ''matriz_ou_filial'',
          ''cnpj_original'', ''cnpj_normalizadoapi''],
         rows =
           [[PStr ''ACME'', PStr ''12.345.678/0001-95'',
             PStr ''12345678000195'', PBool True, PFloat 200, PNone,
             PStr ''ACME SA'', PNaN, PNaN, PNaN, PNaN, PNaN, PNaN,
             PNaN, PNaN, PNaN, PNaN, PNaN, PNaN, PNaN, PNaN, PNaN,
             PNaN, PNaN, PNaN, PStr ''12.345.678/0001-95'',
             PStr ''12345678000195''],
            [PStr ''Foo'', PNaN, PNone, PBool False, PNaN,
             PStr ''cnpj_invalido'', PNaN, PNaN, PNaN, PNaN, PNaN, PNaN,
             PNaN, PNaN, PNaN, PNaN, PNaN, PNaN, PNaN, PNaN, PNaN, PNaN,
             PNaN, PNaN, PNaN, PNaN, PNone]]\<rparr>)) = length (rows (\<lparr>columns = [''nome'', ''cnpj_normalizadoapi''],
             rows = [[Some ''ACME'', Some ''12.345.678/0001-95''], [Some ''Foo'', None]]\<rparr>))
   \<and> rows (\<lparr>columns =
         [''nome'', ''cnpj_normalizadoapi'', ''cnpj_normalizado'',
          ''api_success'', ''api_http_status'', ''api_error'',
          ''razao_social'', ''nome_fantasia'', ''data_abertura'',
          ''natureza_juridica'', ''porte_id'', ''porte_sigla'',
          ''porte_descricao'', ''cnae_principal_codigo'',
          ''cnae_principal_descricao'', ''endereco_logradouro'',
          ''endereco_numero'', ''endereco_complemento'',
          ''endereco_bairro'', ''endereco_cidade'', ''endereco_uf'',
          ''endereco_cep'', ''situacao_cadastral'',
          ''data_situacao_cadastral'', ''matriz_ou_filial'',
          ''cnpj_original'', ''cnpj_normalizadoapi''],
         rows =
           [[PStr ''ACME'', PStr ''12.345.678/0001-95'',
             PStr ''12345678000195'', PBool True, PFloat 200, PNone,
             PStr ''ACME SA'', PNaN, PNaN, PNaN, PNaN, PNaN, PNaN,
             PNaN, PNaN, PNaN, PNaN, PNaN, PNaN, PNaN, PNaN, PNaN,
             PNaN, PNaN, PNaN, PStr ''12.345.678/0001-95'',
             PStr ''12345678000195''],
            [PStr ''Foo'', PNaN, PNone, PBool False, PNaN,
             PStr ''cnpj_invalido'', PNaN, PNaN, PNaN, PNaN, PNaN, PNaN,
             PNaN, PNaN, PNaN, PNaN, PNaN, PNaN, PNaN, PNaN, PNaN, PNaN,
             PNaN, PNaN, PNaN, PNaN, PNone]]\<rparr>) ! 1 ! 0 = PStr ''Foo''"
proof -
  let ?file = "\<lparr>columns = [''nome'', ''cnpj_normalizadoapi''],
             rows = [[Some ''ACME'', Some ''12.345.678/0001-95''], [Some ''Foo'', None]]\<rparr>"
  let ?out = "\<lparr>columns =
         [''nome'', ''cnpj_normalizadoapi'', ''cnpj_normalizado'',
          ''api_success'', ''api_http_status'', ''api_error'',
          ''razao_social'', ''nome_fantasia'', ''data_abertura'',
          ''natureza_juridica'', ''porte_id'', ''porte_sigla'',
          ''porte_descricao'', ''cnae_principal_codigo'',
          ''cnae_principal_descricao'', ''endereco_logradouro'',
          ''endereco_numero'', ''endereco_complemento'',
          ''endereco_bairro'', ''endereco_cidade'', ''endereco_uf'',
          ''endereco_cep'', ''situacao_cadastral'',
          ''data_situacao_cadastral'', ''matriz_ou_filial'',
          ''cnpj_original'', ''cnpj_normalizadoapi''],
         rows =
           [[PStr ''ACME'', PStr ''12.345.678/0001-95'',
             PStr ''12345678000195'', PBool True, PFloat 200, PNone,
             PStr ''ACME SA'', PNaN, PNaN, PNaN, PNaN, PNaN, PNaN,
             PNaN, PNaN, PNaN, PNaN, PNaN, PNaN, PNaN, PNaN, PNaN,
             PNaN, PNaN, PNaN, PStr ''12.345.678/0001-95'',
             PStr ''12345678000195''],
            [PStr ''Foo'', PNaN, PNone, PBool False, PNaN,
             PStr ''cnpj_invalido'', PNaN, PNaN, PNaN, PNaN, PNaN, PNaN,
             PNaN, PNaN, PNaN, PNaN, PNaN, PNaN, PNaN, PNaN, PNaN, PNaN,
             PNaN, PNaN, PNaN, PNaN, PNone]]\<rparr>"
  have run: "main (\<lambda>n url. (0, Response 200
              (Some (PDict [(''company'', PDict [(''name'', PStr ''ACME SA'')])])))) (Some ?file) \<lparr>clock = 0, trace = []\<rparr> = Inr (?out, \<lparr>clock = 1 / 2,
         trace = [Get ''https://api.cnpja.com/office/12345678000195'', Sleep (1 / 2)]\<rparr>)"
    by code_simp
  note t = main_preserves_rows[OF run]
  from t have len: "length (rows ?out) = length (rows ?file)"
    by (rule conjunct1)
  from t have "rows ?out ! 1 ! 0 =
      (case rows ?file ! 1 ! 0 of None \<Rightarrow> PNaN | Some s \<Rightarrow> PStr s)"
    by simp
  then have cell: "rows ?out ! 1 ! 0 = PStr ''Foo''"
    by simp
  from run len cell show ?thesis by blast
qed

lemma dict_display_keys: "dict_display kvs = Inr f \<Longrightarrow> map fst f = map fst kvs"
proof (induction kvs arbitrary: f rule: dict_display.induct)
  case 1
  then show ?case by simp
next
  case (2 k e rest)
  then show ?case by simp
next
  case (3 k v rest)
  then show ?case by (auto split: sum.splits)
qed

lemma extract_fields_keys:
  assumes "extract_fields r = Inr f"
  shows "map fst f = take 22 enrichment_columns"
  using assms unfolding extract_fields_def Let_def
  by (auto split: sum.splits dest!: dict_display_keys simp: enrichment_columns_def
      simp del: dict_display.simps)

lemma at_set_frame:
  assumes "col \<in> set (columns df)"
  shows "columns (at_set df idx col v) = columns df"
    and "length (rows (at_set df idx col v)) = length (rows df)"
    and "i \<noteq> idx \<Longrightarrow> rows (at_set df idx col v) ! i = rows df ! i"
  using assms by (simp_all add: at_set_def)

lemma at_set_all_frame:
  assumes "fst ` set kvs \<subseteq> set (columns df)"
  shows "columns (at_set_all df idx kvs) = columns df
     \<and> length (rows (at_set_all df idx kvs)) = length (rows df)
     \<and> (\<forall>i. i \<noteq> idx \<longrightarrow> rows (at_set_all df idx kvs) ! i = rows df ! i)"
  using assms
proof (induction kvs arbitrary: df)
  case Nil
  then show ?case by simp
next
  case (Cons kv kvs)
  obtain c v where kv: "kv = (c, v)" by (cases kv)
  have c: "c \<in> set (columns df)" using Cons.prems kv by simp
  have "fst ` set kvs \<subseteq> set (columns (at_set df idx c v))"
    using Cons.prems at_set_frame(1)[OF c] by simp
  from Cons.IH[OF this] at_set_frame[OF c] show ?case
    by (simp add: kv)
qed

lemma retry_row_frame:
  assumes sub: "set enrichment_columns \<subseteq> set (columns df)"
    and run: "retry_row srv idx (df, st) = Inr (df', st')"
  shows "columns df' = columns df \<and> length (rows df') = length (rows df)
     \<and> (\<forall>i. i \<noteq> idx \<longrightarrow> rows df' ! i = rows df ! i)"
proof -
  obtain request_count window_start w where st: "st = (request_count, window_start, w)"
    by (cases st)
  let ?cnpj = "row_get (columns df) (rows df ! idx) ''cnpj_normalizado''"
  have m: "''api_success'' \<in> set (columns df)" "''api_error'' \<in> set (columns df)"
    "''cnpj_original'' \<in> set (columns df)" "''cnpj_normalizado'' \<in> set (columns df)"
    using sub by (auto simp: enrichment_columns_def)
  show ?thesis
  proof (cases "truthy ?cnpj")
    case False
    let ?d1 = "at_set df idx ''api_success'' (PBool False)"
    from run False st
    have d: "df' = at_set ?d1 idx ''api_error'' (PStr ''cnpj_invalido_retry'')"
      by (simp add: retry_row_def Let_def)
    have e: "''api_error'' \<in> set (columns ?d1)"
      using at_set_frame(1)[OF m(1)] m(2) by simp
    show ?thesis
      unfolding d using at_set_frame[OF m(1)] at_set_frame[OF e] by simp
  next
    case True
    from run True st obtain api_result fields0 where
      f: "extract_fields api_result = Inr fields0"
      and d: "df' = at_set (at_set (at_set_all df idx fields0) idx ''cnpj_original''
                (row_get (columns df) (rows df ! idx) CNPJ_COLUMN_NAME))
                idx ''cnpj_normalizado'' ?cnpj"
      by (auto simp: retry_row_def Let_def split: prod.splits sum.splits)
    let ?d1 = "at_set_all df idx fields0"
    let ?d2 = "at_set ?d1 idx ''cnpj_original''
                (row_get (columns df) (rows df ! idx) CNPJ_COLUMN_NAME)"
    have "set (map fst fields0) \<subseteq> set enrichment_columns"
      unfolding extract_fields_keys[OF f] by (rule set_take_subset)
    then have k: "fst ` set fields0 \<subseteq> set (columns df)"
      using sub by auto
    note a1 = at_set_all_frame[OF k, of idx]
    have c1: "''cnpj_original'' \<in> set (columns ?d1)" using a1 m(3) by simp
    note a2 = at_set_frame[OF c1]
    have c2: "''cnpj_normalizado'' \<in> set (columns ?d2)" using a2(1) a1 m(4) by simp
    note a3 = at_set_frame[OF c2]
    show ?thesis
      unfolding d using a1 a2 a3 by simp
  qed
qed

lemma retry_loop_frame:
  assumes "set enrichment_columns \<subseteq> set (columns df)"
    and "retry_loop srv idxs (df, st) = Inr (df', st')"
  shows "columns df' = columns df \<and> length (rows df') = length (rows df)
     \<and> (\<forall>i. i \<notin> set idxs \<longrightarrow> rows df' ! i = rows df ! i)"
  using assms
proof (induction idxs arbitrary: df st)
  case Nil
  then show ?case by simp
next
  case (Cons idx idxs)
  from Cons.prems(2) obtain df1 st1 where
    r: "retry_row srv idx (df, st) = Inr (df1, st1)"
    and l: "retry_loop srv idxs (df1, st1) = Inr (df', st')"
    by (auto split: sum.splits)
  note f = retry_row_frame[OF Cons.prems(1) r]
  have "set enrichment_columns \<subseteq> set (columns df1)"
    using f Cons.prems(1) by simp
  from Cons.IH[OF this l] f show ?case by simp
qed


lemma row_get_update:
  assumes c: "c \<in> set cols" and len: "length r = length cols"
  shows "row_get cols (r[index_of c cols := v]) c' = (if c' = c then v else row_get cols r c')"
proof (cases "c' = c")
  case True
  then show ?thesis
    using index_of_less[OF c] len c by (simp add: row_get_def)
next
  case False
  show ?thesis
  proof (cases "c' \<in> set cols")
    case True
    have "index_of c' cols \<noteq> index_of c cols"
      using nth_index_of[OF True] nth_index_of[OF c] False by auto
    then show ?thesis using False by (simp add: row_get_def)
  next
    case False
    then show ?thesis using \<open>c' \<noteq> c\<close> by (simp add: row_get_def)
  qed
qed

lemma at_set_get:
  assumes c: "col \<in> set (columns df)" and i: "idx < length (rows df)"
    and len: "length (rows df ! idx) = length (columns df)"
  shows "row_get (columns df) (rows (at_set df idx col v) ! idx) c' =
           (if c' = col then v else row_get (columns df) (rows df ! idx) c')
     \<and> length (rows (at_set df idx col v) ! idx) = length (columns df)"
  using c i len row_get_update[OF c len] by (simp add: at_set_def)

lemma at_set_all_get:
  assumes "fst ` set kvs \<subseteq> set (columns df)" and "idx < length (rows df)"
    and "length (rows df ! idx) = length (columns df)" and "c' \<notin> fst ` set kvs"
  shows "row_get (columns df) (rows (at_set_all df idx kvs) ! idx) c' =
           row_get (columns df) (rows df ! idx) c'
     \<and> length (rows (at_set_all df idx kvs) ! idx) = length (columns df)"
  using assms
proof (induction kvs arbitrary: df)
  case Nil
  then show ?case by simp
next
  case (Cons kv kvs)
  obtain c v where kv: "kv = (c, v)" by (cases kv)
  have c: "c \<in> set (columns df)" and ne: "c' \<noteq> c"
    using Cons.prems kv by auto
  let ?d = "at_set df idx c v"
  note g = at_set_get[OF c Cons.prems(2,3), of v c']
  note f = at_set_frame[OF c, where idx = idx and v = v]
  have 1: "fst ` set kvs \<subseteq> set (columns ?d)" using Cons.prems(1) f(1) by simp
  have 2: "idx < length (rows ?d)" using Cons.prems(2) f(2) by simp
  have 3: "length (rows ?d ! idx) = length (columns ?d)" using g f(1) by simp
  have 4: "c' \<notin> fst ` set kvs" using Cons.prems(4) by simp
  from Cons.IH[OF 1 2 3 4] g f(1) ne show ?case by (simp add: kv)
qed

lemma retry_row_overwrites:
  assumes sub: "set enrichment_columns \<subseteq> set (columns df)"
    and run: "retry_row srv idx (df, st) = Inr (df', st')"
    and i: "idx < length (rows df)"
    and len: "length (rows df ! idx) = length (columns df)"
  shows "\<exists>b. row_get (columns df') (rows df' ! idx) ''api_success'' = PBool b"
proof -
  obtain request_count window_start w where st: "st = (request_count, window_start, w)"
    by (cases st)
  let ?cnpj = "row_get (columns df) (rows df ! idx) ''cnpj_normalizado''"
  have m: "''api_success'' \<in> set (columns df)" "''api_error'' \<in> set (columns df)"
    "''cnpj_original'' \<in> set (columns df)" "''cnpj_normalizado'' \<in> set (columns df)"
    using sub by (auto simp: enrichment_columns_def)
  show ?thesis
  proof (cases "truthy ?cnpj")
    case False
    let ?d1 = "at_set df idx ''api_success'' (PBool False)"
    from run False st
    have d: "df' = at_set ?d1 idx ''api_error'' (PStr ''cnpj_invalido_retry'')"
      by (simp add: retry_row_def Let_def)
    note f1 = at_set_frame[OF m(1), where idx = idx and v = "PBool False"]
    note g1 = at_set_get[OF m(1) i len, where v = "PBool False" and c' = "''api_success''"]
    have e: "''api_error'' \<in> set (columns ?d1)" using f1(1) m(2) by simp
    have i1: "idx < length (rows ?d1)" using f1(2) i by simp
    have l1: "length (rows ?d1 ! idx) = length (columns ?d1)" using g1 f1(1) by simp
    note g2 = at_set_get[OF e i1 l1, where v = "PStr ''cnpj_invalido_retry''" and c' = "''api_success''"]
    note f2 = at_set_frame[OF e, where idx = idx and v = "PStr ''cnpj_invalido_retry''"]
    show ?thesis unfolding d using g1 g2 f1(1) f2(1) by auto
  next
    case True
    from run True st obtain api_result fields0 where
      f: "extract_fields api_result = Inr fields0"
      and d: "df' = at_set (at_set (at_set_all df idx fields0) idx ''cnpj_original''
                (row_get (columns df) (rows df ! idx) CNPJ_COLUMN_NAME))
                idx ''cnpj_normalizado'' ?cnpj"
      by (auto simp: retry_row_def Let_def split: prod.splits sum.splits)
    from extract_fields_envelope[OF f] obtain rest where
      fs: "fields0 = (''api_success'', PBool (success api_result)) # rest"
      by auto
    have keys: "map fst rest = tl (take 22 enrichment_columns)"
      using extract_fields_keys[OF f] fs by (cases "take 22 enrichment_columns") auto
    have notin: "''api_success'' \<notin> fst ` set rest"
    proof -
      have "''api_success'' \<notin> set (map fst rest)"
        unfolding keys by (simp add: enrichment_columns_def)
      then show ?thesis by simp
    qed
    have "set (map fst rest) \<subseteq> set enrichment_columns"
      unfolding keys by (simp add: enrichment_columns_def)
    then have k: "fst ` set rest \<subseteq> set (columns df)"
      using sub by auto
    let ?d0 = "at_set df idx ''api_success'' (PBool (success api_result))"
    note f0 = at_set_frame[OF m(1), where idx = idx and v = "PBool (success api_result)"]
    note g0 = at_set_get[OF m(1) i len, where v = "PBool (success api_result)" and c' = "''api_success''"]
    have k0: "fst ` set rest \<subseteq> set (columns ?d0)" using k f0(1) by simp
    have i0: "idx < length (rows ?d0)" using f0(2) i by simp
    have l0: "length (rows ?d0 ! idx) = length (columns ?d0)" using g0 f0(1) by simp
    let ?d1 = "at_set_all ?d0 idx rest"
    have d1: "at_set_all df idx fields0 = ?d1" by (simp add: fs)
    note g1 = at_set_all_get[OF k0 i0 l0 notin]
    note f1 = at_set_all_frame[OF k0, where idx = idx]
    have c1: "''cnpj_original'' \<in> set (columns ?d1)" using f1 f0(1) m(3) by simp
    have i1: "idx < length (rows ?d1)" using f1 i0 by simp
    have l1: "length (rows ?d1 ! idx) = length (columns ?d1)" using g1 f1 by simp
    let ?raw = "row_get (columns df) (rows df ! idx) CNPJ_COLUMN_NAME"
    let ?d2 = "at_set ?d1 idx ''cnpj_original'' ?raw"
    note g2 = at_set_get[OF c1 i1 l1, where v = ?raw and c' = "''api_success''"]
    note f2 = at_set_frame[OF c1, where idx = idx and v = ?raw]
    have c2: "''cnpj_normalizado'' \<in> set (columns ?d2)" using f2(1) f1 f0(1) m(4) by simp
    have i2: "idx < length (rows ?d2)" using f2(2) i1 by simp
    have l2: "length (rows ?d2 ! idx) = length (columns ?d2)" using g2 f2(1) by simp
    note g3 = at_set_get[OF c2 i2 l2, where v = ?cnpj and c' = "''api_success''"]
    note f3 = at_set_frame[OF c2, where idx = idx and v = ?cnpj]
    have cols: "columns df' = columns df"
      unfolding d d1 using f3(1) f2(1) f1 f0(1) by simp
    have "row_get (columns df) (rows df' ! idx) ''api_success'' = PBool (success api_result)"
      unfolding d d1 using g3 g2 g1 g0 f2(1) f1 f0(1) by simp
    then show ?thesis using cols by auto
  qed
qed

lemma retry_loop_overwrites:
  assumes "set enrichment_columns \<subseteq> set (columns df)"
    and "retry_loop srv idxs (df, st) = Inr (df', st')"
    and "distinct idxs"
    and "\<forall>i\<in>set idxs. i < length (rows df)"
  shows "\<forall>i\<in>set idxs. length (rows df ! i) = length (columns df) \<longrightarrow>
           (\<exists>b. row_get (columns df') (rows df' ! i) ''api_success'' = PBool b)"
  using assms
proof (induction idxs arbitrary: df st)
  case Nil
  then show ?case by simp
next
  case (Cons idx idxs)
  from Cons.prems(2) obtain df1 st1 where
    r: "retry_row srv idx (df, st) = Inr (df1, st1)"
    and l: "retry_loop srv idxs (df1, st1) = Inr (df', st')"
    by (auto split: sum.splits)
  note f = retry_row_frame[OF Cons.prems(1) r]
  have sub1: "set enrichment_columns \<subseteq> set (columns df1)"
    using f Cons.prems(1) by simp
  note fl = retry_loop_frame[OF sub1 l]
  have d: "distinct idxs" and ni: "idx \<notin> set idxs" using Cons.prems(3) by simp_all
  have b: "\<forall>i\<in>set idxs. i < length (rows df1)" using Cons.prems(4) f by simp
  note ih = Cons.IH[OF sub1 l d b]
  show ?case
  proof (intro ballI impI)
    fix i assume i: "i \<in> set (idx # idxs)"
      and len: "length (rows df ! i) = length (columns df)"
    show "\<exists>b. row_get (columns df') (rows df' ! i) ''api_success'' = PBool b"
    proof (cases "i = idx")
      case True
      have "idx < length (rows df)" using Cons.prems(4) by simp
      from retry_row_overwrites[OF Cons.prems(1) r this] len True
      obtain b where "row_get (columns df1) (rows df1 ! idx) ''api_success'' = PBool b"
        by auto
      then show ?thesis using fl ni True by auto
    next
      case False
      then have "i \<in> set idxs" using i by simp
      moreover have "length (rows df1 ! i) = length (columns df1)"
        using f False len by simp
      ultimately show ?thesis using ih by blast
    qed
  qed
qed


text \<open>
  A retry-only run over a table produced before (its header has the enrichment
  columns), when the run returns: the rows selected are those whose success flag is not
  the text \<open>true\<close> in any case of letters. When there is none, the run returns without
  writing and without any effect. Otherwise the table it writes has the header and the
  number of rows of the table it read; every row that was not selected holds exactly the
  cells that were read for it; and every selected row has been overwritten in place, its
  success flag now being the flag of its new result.
\<close>

theorem reprocess_failed_frame:
  assumes run: "reprocess_failed srv (Some file) w = Inr (result, w')"
    and sub: "set enrichment_columns \<subseteq> set (columns file)"
  shows "(case result of
            None \<Rightarrow>
              w' = w \<and>
              (\<forall>i<length (rows file).
                 \<not> mask_retry (columns file) (rows (read_csv file) ! i))
          | Some out \<Rightarrow>
              columns out = columns file \<and> length (rows out) = length (rows file) \<and>
              (\<forall>i<length (rows file).
                 if mask_retry (columns file) (rows (read_csv file) ! i)
                 then length (rows file ! i) = length (columns file) \<longrightarrow>
                      (\<exists>b. row_get (columns out) (rows out ! i) ''api_success'' = PBool b)
                 else rows out ! i = rows (read_csv file) ! i))"
proof -
  let ?df = "read_csv file"
  let ?idxs = "filter (\<lambda>i. mask_retry (columns ?df) (rows ?df ! i)) [0..<length (rows ?df)]"
  have c0: "columns ?df = columns file" and l0: "length (rows ?df) = length (rows file)"
    by (simp_all add: read_csv_def)
  have rl: "length (rows ?df ! i) = length (rows file ! i)" if "i < length (rows file)" for i
    using that by (simp add: read_csv_def)
  have sub': "set enrichment_columns \<subseteq> set (columns ?df)" using sub c0 by simp
  show ?thesis
  proof (cases "?idxs = []")
    case True
    with run have r: "result = None" "w' = w"
      by (auto simp: reprocess_failed_def Let_def split: if_splits)
    have "\<not> mask_retry (columns file) (rows ?df ! i)" if "i < length (rows file)" for i
    proof
      assume "mask_retry (columns file) (rows ?df ! i)"
      then have "i \<in> set ?idxs" using that c0 l0 by simp
      with True show False by simp
    qed
    with r show ?thesis by simp
  next
    case False
    with run obtain out st' where
      l: "retry_loop srv ?idxs (?df, 0, clock w, w) = Inr (out, st')"
      and r: "result = Some out"
      by (auto simp: reprocess_failed_def Let_def split: if_splits sum.splits)
    note f = retry_loop_frame[OF sub' l]
    have d: "distinct ?idxs" by simp
    have b: "\<forall>i\<in>set ?idxs. i < length (rows ?df)" by simp
    note o = retry_loop_overwrites[OF sub' l d b]
    have row: "if mask_retry (columns file) (rows ?df ! i)
               then length (rows file ! i) = length (columns file) \<longrightarrow>
                    (\<exists>b. row_get (columns out) (rows out ! i) ''api_success'' = PBool b)
               else rows out ! i = rows ?df ! i"
      if i: "i < length (rows file)" for i
    proof (cases "mask_retry (columns file) (rows ?df ! i)")
      case True
      then have "i \<in> set ?idxs" using i c0 l0 by simp
      with o True rl[OF i] c0 show ?thesis by auto
    next
      case False
      then have "i \<notin> set ?idxs" using c0 by simp
      with f False show ?thesis by simp
    qed
    have a: "columns out = columns file" and n: "length (rows out) = length (rows file)"
      using f c0 l0 by simp_all
    show ?thesis
      unfolding r option.case using a n row by blast
  qed
qed

theorem reprocess_failed_frame_witness:
  "reprocess_failed (\<lambda>n url. (0, Response 200
              (Some (PDict [(''company'', PDict [(''name'', PStr ''BETA SA'')])]))))
      (Some \<lparr>columns = [''cnpj_normalizadoapi'', ''api_success'', ''api_http_status'',
           ''api_error'', ''razao_social'', ''nome_fantasia'',
           ''data_abertura'', ''natureza_juridica'', ''porte_id'',
           ''porte_sigla'', ''porte_descricao'', ''cnae_principal_codigo'',
           ''cnae_principal_descricao'', ''endereco_logradouro'',
           ''endereco_numero'', ''endereco_complemento'',
           ''endereco_bairro'', ''endereco_cidade'', ''endereco_uf'',
           ''endereco_cep'', ''situacao_cadastral'',
           ''data_situacao_cadastral'', ''matriz_ou_filial'',
           ''cnpj_original'', ''cnpj_normalizado''],
        rows = [[Some ''11.111.111/0001-11'', Some ''True'', Some ''200'', None,
                 Some ''ALFA SA'', None, None, None, None, None, None, None, None, None,
                 None, None, None, None, None, None, None, None, None,
                 Some ''11.111.111/0001-11'', Some ''11111111000111''],
                [Some ''22.222.222/0001-22'', Some ''False'', Some ''500'',
                 Some ''http_error_500'',
                 None, None, None, None, None, None, None, None, None, None,
                 None, None, None, None, None, None, None, None, None,
                 Some ''22.222.222/0001-22'', Some ''22222222000122'']]\<rparr>)
      \<lparr>clock = 0, trace = []\<rparr>
    = Inr (Some \<lparr>columns = [''cnpj_normalizadoapi'', ''api_success'', ''api_http_status'',
           ''api_error'', ''razao_social'', ''nome_fantasia'',
           ''data_abertura'', ''natureza_juridica'', ''porte_id'',
           ''porte_sigla'', ''porte_descricao'', ''cnae_principal_codigo'',
           ''cnae_principal_descricao'', ''endereco_logradouro'',
           ''endereco_numero'', ''endereco_complemento'',
           ''endereco_bairro'', ''endereco_cidade'', ''endereco_uf'',
           ''endereco_cep'', ''situacao_cadastral'',
           ''data_situacao_cadastral'', ''matriz_ou_filial'',
           ''cnpj_original'', ''cnpj_normalizado''],
        rows =
          [[PStr ''11.111.111/0001-11'', PStr ''True'', PStr ''200'',
            PNaN, PStr ''ALFA SA'', PNaN, PNaN, PNaN, PNaN, PNaN, PNaN,
            PNaN, PNaN, PNaN, PNaN, PNaN, PNaN, PNaN, PNaN, PNaN, PNaN,
            PNaN, PNaN, PStr ''11.111.111/0001-11'',
            PStr ''11111111000111''],
           [PStr ''22.222.222/0001-22'', PBool True, PInt 200, PNone,
            PStr ''BETA SA'', PNone, PNone, PNone, PNone, PNone, PNone,
            PNone, PNone, PNone, PNone, PNone, PNone, PNone, PNone, PNone,
            PNone, PNone, PNone, PStr ''22.222.222/0001-22'',
            PStr ''22222222000122'']]\<rparr>,
      \<lparr>clock = 0, trace = [Get ''https://api.cnpja.com/office/22222222000122'']\<rparr>)
   \<and> rows (\<lparr>columns = [''cnpj_normalizadoapi'', ''api_success'', ''api_http_status'',
           ''api_error'', ''razao_social'', ''nome_fantasia'',
           ''data_abertura'', ''natureza_juridica'', ''porte_id'',
           ''porte_sigla'', ''porte_descricao'', ''cnae_principal_codigo'',
           ''cnae_principal_descricao'', ''endereco_logradouro'',
           ''endereco_numero'', ''endereco_complemento'',
           ''endereco_bairro'', ''endereco_cidade'', ''endereco_uf'',
           ''endereco_cep'', ''situacao_cadastral'',
           ''data_situacao_cadastral'', ''matriz_ou_filial'',
           ''cnpj_original'', ''cnpj_normalizado''],
        rows =
          [[PStr ''11.111.111/0001-11'', PStr ''True'', PStr ''200'',
            PNaN, PStr ''ALFA SA'', PNaN, PNaN, PNaN, PNaN, PNaN, PNaN,
            PNaN, PNaN, PNaN, PNaN, PNaN, PNaN, PNaN, PNaN, PNaN, PNaN,
            PNaN, PNaN, PStr ''11.111.111/0001-11'',
            PStr ''11111111000111''],
           [PStr ''22.222.222/0001-22'', PBool True, PInt 200, PNone,
            PStr ''BETA SA'', PNone, PNone, PNone, PNone, PNone, PNone,
            PNone, PNone, PNone, PNone, PNone, PNone, PNone, PNone, PNone,
            PNone, PNone, PNone, PStr ''22.222.222/0001-22'',
            PStr ''22222222000122'']]\<rparr>) ! 0 =
       rows (read_csv \<lparr>columns = [''cnpj_normalizadoapi'', ''api_success'', ''api_http_status'',
           ''api_error'', ''razao_social'', ''nome_fantasia'',
           ''data_abertura'', ''natureza_juridica'', ''porte_id'',
           ''porte_sigla'', ''porte_descricao'', ''cnae_principal_codigo'',
           ''cnae_principal_descricao'', ''endereco_logradouro'',
           ''endereco_numero'', ''endereco_complemento'',
           ''endereco_bairro'', ''endereco_cidade'', ''endereco_uf'',
           ''endereco_cep'', ''situacao_cadastral'',
           ''data_situacao_cadastral'', ''matriz_ou_filial'',
           ''cnpj_original'', ''cnpj_normalizado''],
        rows = [[Some ''11.111.111/0001-11'', Some ''True'', Some ''200'', None,
                 Some ''ALFA SA'', None, None, None, None, None, None, None, None, None,
                 None, None, None, None, None, None, None, None, None,
                 Some ''11.111.111/0001-11'', Some ''11111111000111''],
                [Some ''22.222.222/0001-22'', Some ''False'', Some ''500'',
                 Some ''http_error_500'',
                 None, None, None, None, None, None, None, None, None, None,
                 None, None, None, None, None, None, None, None, None,
                 Some ''22.222.222/0001-22'', Some ''22222222000122'']]\<rparr>) ! 0
   \<and> length (rows (\<lparr>columns = [''cnpj_normalizadoapi'', ''api_success'', ''api_http_status'',
           ''api_error'', ''razao_social'', ''nome_fantasia'',
           ''data_abertura'', ''natureza_juridica'', ''porte_id'',
           ''porte_sigla'', ''porte_descricao'', ''cnae_principal_codigo'',
           ''cnae_principal_descricao'', ''endereco_logradouro'',
           ''endereco_numero'', ''endereco_complemento'',
           ''endereco_bairro'', ''endereco_cidade'', ''endereco_uf'',
           ''endereco_cep'', ''situacao_cadastral'',
           ''data_situacao_cadastral'', ''matriz_ou_filial'',
           ''cnpj_original'', ''cnpj_normalizado''],
        rows =
          [[PStr ''11.111.111/0001-11'', PStr ''True'', PStr ''200'',
            PNaN, PStr ''ALFA SA'', PNaN, PNaN, PNaN, PNaN, PNaN, PNaN,
            PNaN, PNaN, PNaN, PNaN, PNaN, PNaN, PNaN, PNaN, PNaN, PNaN,
            PNaN, PNaN, PStr ''11.111.111/0001-11'',
            PStr ''11111111000111''],
           [PStr ''22.222.222/0001-22'', PBool True, PInt 200, PNone,
            PStr ''BETA SA'', PNone, PNone, PNone, PNone, PNone, PNone,
            PNone, PNone, PNone, PNone, PNone, PNone, PNone, PNone, PNone,
            PNone, PNone, PNone, PStr ''22.222.222/0001-22'',
            PStr ''22222222000122'']]\<rparr>)) = 2"
proof -
  let ?file = "\<lparr>columns = [''cnpj_normalizadoapi'', ''api_success'', ''api_http_status'',
           ''api_error'', ''razao_social'', ''nome_fantasia'',
           ''data_abertura'', ''natureza_juridica'', ''porte_id'',
           ''porte_sigla'', ''porte_descricao'', ''cnae_principal_codigo'',
           ''cnae_principal_descricao'', ''endereco_logradouro'',
           ''endereco_numero'', ''endereco_complemento'',
           ''endereco_bairro'', ''endereco_cidade'', ''endereco_uf'',
           ''endereco_cep'', ''situacao_cadastral'',
           ''data_situacao_cadastral'', ''matriz_ou_filial'',
           ''cnpj_original'', ''cnpj_normalizado''],
        rows = [[Some ''11.111.111/0001-11'', Some ''True'', Some ''200'', None,
                 Some ''ALFA SA'', None, None, None, None, None, None, None, None, None,
                 None, None, None, None, None, None, None, None, None,
                 Some ''11.111.111/0001-11'', Some ''11111111000111''],
                [Some ''22.222.222/0001-22'', Some ''False'', Some ''500'',
                 Some ''http_error_500'',
                 None, None, None, None, None, None, None, None, None, None,
                 None, None, None, None, None, None, None, None, None,
                 Some ''22.222.222/0001-22'', Some ''22222222000122'']]\<rparr>"
  let ?out = "\<lparr>columns = [''cnpj_normalizadoapi'', ''api_success'', ''api_http_status'',
           ''api_error'', ''razao_social'', ''nome_fantasia'',
           ''data_abertura'', ''natureza_juridica'', ''porte_id'',
           ''porte_sigla'', ''porte_descricao'', ''cnae_principal_codigo'',
           ''cnae_principal_descricao'', ''endereco_logradouro'',
           ''endereco_numero'', ''endereco_complemento'',
           ''endereco_bairro'', ''endereco_cidade'', ''endereco_uf'',
           ''endereco_cep'', ''situacao_cadastral'',
           ''data_situacao_cadastral'', ''matriz_ou_filial'',
           ''cnpj_original'', ''cnpj_normalizado''],
        rows =
          [[PStr ''11.111.111/0001-11'', PStr ''True'', PStr ''200'',
            PNaN, PStr ''ALFA SA'', PNaN, PNaN, PNaN, PNaN, PNaN, PNaN,
            PNaN, PNaN, PNaN, PNaN, PNaN, PNaN, PNaN, PNaN, PNaN, PNaN,
            PNaN, PNaN, PStr ''11.111.111/0001-11'',
            PStr ''11111111000111''],
           [PStr ''22.222.222/0001-22'', PBool True, PInt 200, PNone,
            PStr ''BETA SA'', PNone, PNone, PNone, PNone, PNone, PNone,
            PNone, PNone, PNone, PNone, PNone, PNone, PNone, PNone, PNone,
            PNone, PNone, PNone, PStr ''22.222.222/0001-22'',
            PStr ''22222222000122'']]\<rparr>"
  have run: "reprocess_failed (\<lambda>n url. (0, Response 200
              (Some (PDict [(''company'', PDict [(''name'', PStr ''BETA SA'')])])))) (Some ?file) \<lparr>clock = 0, trace = []\<rparr>
      = Inr (Some ?out, \<lparr>clock = 0, trace = [Get ''https://api.cnpja.com/office/22222222000122'']\<rparr>)"
    by code_simp
  have sub: "set enrichment_columns \<subseteq> set (columns ?file)"
    by (simp add: enrichment_columns_def)
  have m: "\<not> mask_retry (columns ?file) (rows (read_csv ?file) ! 0)"
    by code_simp
  note t = reprocess_failed_frame[OF run sub, unfolded option.case]
  from t have "0 < length (rows ?file) \<longrightarrow>
         (if mask_retry (columns ?file) (rows (read_csv ?file) ! 0)
          then length (rows ?file ! 0) = length (columns ?file) \<longrightarrow>
              (\<exists>b. row_get (columns ?out) (rows ?out ! 0) ''api_success'' = PBool b)
          else rows ?out ! 0 = rows (read_csv ?file) ! 0)"
    by blast
  with m have r0: "rows ?out ! 0 = rows (read_csv ?file) ! 0"
    by simp
  from t have "length (rows ?out) = length (rows ?file)" by blast
  then have len: "length (rows ?out) = 2" by simp
  from run r0 len show ?thesis by blast
qed

lemma extract_fields_flattens:
  assumes "flattens (data r)"
  shows "\<exists>f. extract_fields r = Inr f"
  using assms unfolding flattens_def extract_fields_def Let_def
  by (auto split: sum.splits)

lemma flattens_PNone: "flattens PNone"
  by code_simp

lemma fetch_attempts_flattens:
  assumes srv: "\<forall>n url d st j. srv n url = (d, Response st (Some j)) \<longrightarrow> flattens j"
  shows "flattens (data (fst (fetch_attempts srv url as prev w)))"
proof (induction as arbitrary: prev w)
  case Nil
  then show ?case by (simp add: flattens_PNone)
next
  case (Cons a as)
  obtain d rep where s: "srv (n_requests w) url = (d, rep)"
    by (cases "srv (n_requests w) url")
  show ?case
  proof (cases rep)
    case (RequestException e)
    with s Cons.IH show ?thesis by (simp add: requests_get_def)
  next
    case (Response st body)
    show ?thesis
    proof (cases body)
      case None
      with s Response show ?thesis by (simp add: requests_get_def flattens_PNone)
    next
      case (Some j)
      with s Response srv have "flattens j" by blast
      with s Response Some show ?thesis by (simp add: requests_get_def Let_def)
    qed
  qed
qed

lemma query_cnpj_flattens:
  assumes srv: "\<forall>n url d st j. srv n url = (d, Response st (Some j)) \<longrightarrow> flattens j"
  shows "flattens (data (fst (query_cnpj srv cnpj 0 w)))"
proof -
  obtain r1 v1 where a1: "fetch_cnpj_data srv cnpj 5 w = (r1, v1)"
    by (cases "fetch_cnpj_data srv cnpj 5 w")
  obtain r2 v2 where a2: "fetch_cnpj_data srv cnpj 5 (time_sleep 60 v1) = (r2, v2)"
    by (cases "fetch_cnpj_data srv cnpj 5 (time_sleep 60 v1)")
  obtain r3 v3 where a3: "fetch_cnpj_data srv cnpj 5 (time_sleep 60 v2) = (r3, v3)"
    by (cases "fetch_cnpj_data srv cnpj 5 (time_sleep 60 v2)")
  have f: "flattens (data (fst (fetch_cnpj_data srv cnpj 5 v)))" for v
    unfolding fetch_cnpj_data_def by (rule fetch_attempts_flattens[OF srv])
  from f[of w] f[of "time_sleep 60 v1"] f[of "time_sleep 60 v2"] a1 a2 a3
  show ?thesis
    by (simp add: query_cnpj_three[OF a1 a2 a3])
qed

lemma main_row_returns:
  assumes srv: "\<forall>n url d st j. srv n url = (d, Response st (Some j)) \<longrightarrow> flattens j"
  shows "\<exists>fields0 st'. main_row srv cols idx row st = Inr (fields0, st')"
proof -
  obtain request_count window_start w where st: "st = (request_count, window_start, w)"
    by (cases st) auto
  show ?thesis
  proof (cases "truthy (row_get cols row ''cnpj_normalizado'')")
    case False
    then show ?thesis by (simp add: main_row_def st Let_def)
  next
    case True
    obtain rc1 ws1 w1 where l: "sleep_if_necessary request_count window_start w = ((rc1, ws1), w1)"
      by (metis surj_pair)
    obtain api_result w2 where
      q: "query_cnpj srv (row_get cols row ''cnpj_normalizado'') 0 w1 = (api_result, w2)"
      by (metis surj_pair)
    have "flattens (data api_result)"
      using query_cnpj_flattens[OF srv, of "row_get cols row ''cnpj_normalizado''" w1] q by simp
    from extract_fields_flattens[OF this] obtain f where "extract_fields api_result = Inr f" ..
    with True l q show ?thesis by (simp add: main_row_def st Let_def)
  qed
qed

lemma main_loop_returns:
  assumes srv: "\<forall>n url d st j. srv n url = (d, Response st (Some j)) \<longrightarrow> flattens j"
  shows "\<exists>res' st'. main_loop srv cols irs (res, st) = Inr (res', st')
           \<and> length res' = length res + length irs"
proof (induction irs arbitrary: res st)
  case Nil
  show ?case by (intro exI[of _ res] exI[of _ st]) simp
next
  case (Cons ir irs)
  obtain idx row where ir: "ir = (idx, row)" by (cases ir)
  from main_row_returns[OF srv, of cols idx row st] obtain fields0 st1 where
    r: "main_row srv cols idx row st = Inr (fields0, st1)" by blast
  from Cons.IH[of "res @ [fields0]" st1] r ir show ?case by auto
qed

lemma set_first_seen: "set (first_seen xs) = set xs"
  by (simp add: first_seen_def)

text \<open>
  The full run does write its table on a table that has the identifier column and at
  least one row, when every JSON body the service sends flattens.
\<close>

theorem main_writes_table:
  assumes col: "CNPJ_COLUMN_NAME \<in> set (columns file)"
    and ne: "rows file \<noteq> []"
    and srv: "\<forall>n url d st j. srv n url = (d, Response st (Some j)) \<longrightarrow> flattens j"
  shows "\<exists>df_final w'. main srv (Some file) w = Inr (df_final, w')"
proof -
  let ?loaded = "read_csv file"
  let ?vals = "map (\<lambda>r. opt_str (normalize_cnpj
                  (cell_text (row_get (columns ?loaded) r CNPJ_COLUMN_NAME)))) (rows ?loaded)"
  let ?df = "set_column ?loaded ''cnpj_normalizado'' ?vals"
  let ?irs = "drop START_INDEX (zip [0..<length (rows ?df)] (rows ?df))"
  have lv: "length ?vals = length (rows ?loaded)" by simp
  have n: "length (rows ?df) = length (rows file)"
    using set_column_rows[OF lv, of "''cnpj_normalizado''"] by (simp add: read_csv_def)
  have "rows ?df \<noteq> []" using n ne by (metis length_0_conv)
  then have irs: "?irs \<noteq> []" by (simp add: START_INDEX_def)
  from main_loop_returns[OF srv, of "columns ?df" ?irs "[]" "(0, clock w, w)"]
  obtain resultados st' where
    l: "main_loop srv (columns ?df) ?irs ([], 0, clock w, w) = Inr (resultados, st')"
    and len: "length resultados = length ?irs"
    by auto
  from len irs obtain r0 rs where rs: "resultados = r0 # rs"
    by (cases resultados) auto
  have "map (\<lambda>r. map_of r ''index_origem'') resultados =
      map (\<lambda>ir. Some (PInt (int (fst ir)))) ?irs"
    using main_loop_labels[OF l] by simp
  then have "map_of r0 ''index_origem'' \<noteq> None"
    using rs by (cases ?irs) auto
  then have "''index_origem'' \<in> fst ` set r0"
    by (simp add: map_of_eq_None_iff)
  then have "''index_origem'' \<in> set (columns (DataFrame resultados))"
    by (auto simp: DataFrame_def Let_def set_first_seen rs)
  then obtain labels right where
    x: "set_index (DataFrame resultados) ''index_origem'' = Inr (labels, right)"
    by (simp add: set_index_def Let_def)
  obtain rc ws w1 where st': "st' = (rc, ws, w1)" by (cases st') auto
  have "main srv (Some file) w = Inr (join_left ?df labels right ''api'', w1)"
    using col l x st' by (simp add: main_def Let_def read_csv_def)
  then show ?thesis by blast
qed


theorem main_writes_table_witness:
  "\<exists>df_final w'.
     main (\<lambda>n url. (0, Response 200
              (Some (PDict [(''company'', PDict [(''name'', PStr ''ACME SA'')])]))))
       (Some \<lparr>columns = [''nome'', ''cnpj_normalizadoapi''],
              rows = [[Some ''ACME'', Some ''12.345.678/0001-95''], [Some ''Foo'', None]]\<rparr>)
       \<lparr>clock = 0, trace = []\<rparr> = Inr (df_final, w')"
proof -
  have f: "flattens (PDict [(''company'', PDict [(''name'', PStr ''ACME SA'')])])"
    by code_simp
  show ?thesis
    by (rule main_writes_table) (simp_all add: CNPJ_COLUMN_NAME_def f)
qed


text \<open>
  On a table that has the identifier column and no row, the full run ends with
  \<open>KeyError\<close>: the table of the empty list of records has no column \<open>index_origem\<close> to
  take as its index. Nothing is written.
\<close>

theorem main_empty_table:
  assumes "CNPJ_COLUMN_NAME \<in> set (columns file)" and "rows file = []"
  shows "main srv (Some file) w = Inl KeyError"
  using assms
  by (simp add: main_def read_csv_def set_column_def Let_def DataFrame_def first_seen_def
      set_index_def)

theorem main_empty_table_witness:
  "main (\<lambda>n url. (0, Response 404 None))
     (Some \<lparr>columns = [''nome'', ''cnpj_normalizadoapi''], rows = []\<rparr>)
     \<lparr>clock = 0, trace = []\<rparr> = Inl KeyError"
  by (rule main_empty_table) (simp_all add: CNPJ_COLUMN_NAME_def)

text \<open>
  C1. Two input tables for which the full run writes no output table, although the file
  is there and its header has the identifier column. A table with a header and no row:
  the table of the results has no column, \<open>set_index\<close> raises \<open>KeyError\<close>. A table of two
  rows, where the service answers the lookup of the first row with a company and the
  lookup of the second row with HTTP status 500 and the JSON text
  \<open>"Internal Server Error"\<close> as its body: flattening the second result raises
  \<open>AttributeError\<close>, the run ends there and the record of the first row is lost with it.
\<close>

theorem main_writes_no_table:
  "main (\<lambda>n url. (0, Response 200 None))
      (Some \<lparr>columns = [''nome'', ''cnpj_normalizadoapi''], rows = []\<rparr>)
      \<lparr>clock = 0, trace = []\<rparr>
    = Inl KeyError
   \<and> main (\<lambda>n url. (0, if n = 0
                then Response 200
                       (Some (PDict [(''company'', PDict [(''name'', PStr ''ACME SA'')])]))
                else Response 500 (Some (PStr ''Internal Server Error''))))
      (Some \<lparr>columns = [''nome'', ''cnpj_normalizadoapi''],
             rows = [[Some ''ACME'', Some ''12.345.678/0001-95''],
                     [Some ''Beta'', Some ''98.765.432/0001-10'']]\<rparr>)
      \<lparr>clock = 0, trace = []\<rparr>
    = Inl AttributeError"
  by code_simp

text \<open>
  C5. A service that answers every lookup with HTTP status 429 and the JSON text
  \<open>"Too Many Requests"\<close> as its body. The loop at the call site does what is stated:
  three lookups, a sleep of 60 seconds after the first and after the second, and the
  third result, a failure with the error text \<open>http_error_429\<close>, is what it ends with.
  Neither driver records that result: flattening it raises \<open>AttributeError\<close> (the payload
  is not a dictionary), and the full run and the retry-only run end with that error
  without writing their table.
\<close>

theorem http_429_result_not_recorded:
  "query_cnpj (\<lambda>n url. (0, Response 429 (Some (PStr ''Too Many Requests''))))
      (PStr ''12345678000195'') 0 \<lparr>clock = 0, trace = []\<rparr>
    = (\<lparr>success = False, error = Some ''http_error_429'', http_status = Some 429,
        data = PStr ''Too Many Requests''\<rparr>,
       \<lparr>clock = 120,
        trace = [Get ''https://api.cnpja.com/office/12345678000195'', Sleep 60,
                 Get ''https://api.cnpja.com/office/12345678000195'', Sleep 60,
                 Get ''https://api.cnpja.com/office/12345678000195'']\<rparr>)
   \<and> main (\<lambda>n url. (0, Response 429 (Some (PStr ''Too Many Requests''))))
      (Some \<lparr>columns = [''cnpj_normalizadoapi''],
             rows = [[Some ''12.345.678/0001-95'']]\<rparr>)
      \<lparr>clock = 0, trace = []\<rparr>
    = Inl AttributeError
   \<and> reprocess_failed (\<lambda>n url. (0, Response 429 (Some (PStr ''Too Many Requests''))))
      (Some \<lparr>columns = [''cnpj_normalizadoapi'', ''cnpj_normalizado'', ''api_success'',
                        ''api_http_status'', ''api_error'', ''razao_social'',
                        ''nome_fantasia'', ''data_abertura'', ''natureza_juridica'',
                        ''porte_id'', ''porte_sigla'', ''porte_descricao'',
                        ''cnae_principal_codigo'', ''cnae_principal_descricao'',
                        ''endereco_logradouro'', ''endereco_numero'',
                        ''endereco_complemento'', ''endereco_bairro'',
                        ''endereco_cidade'', ''endereco_uf'', ''endereco_cep'',
                        ''situacao_cadastral'', ''data_situacao_cadastral'',
                        ''matriz_ou_filial'', ''cnpj_original'', ''cnpj_normalizadoapi.1''],
             rows = [[Some ''12.345.678/0001-95'', Some ''12345678000195'', Some ''False'',
                      Some ''500'', Some ''http_error_500'', None, None, None, None, None,
                      None, None, None, None, None, None, None, None, None, None, None,
                      None, None, None, Some ''12.345.678/0001-95'',
                      Some ''12345678000195'']]\<rparr>)
      \<lparr>clock = 0, trace = []\<rparr>
    = Inl AttributeError"
  by code_simp

text \<open>
  C9. A retry-only run over a table of three rows produced by a full run, of which the
  second and the third have a success flag that is not true. The service answers the
  lookup of the second row with a company, and the lookup of the third row with HTTP
  status 502 and the JSON text \<open>"Bad Gateway"\<close> as its body. Flattening that result
  raises \<open>AttributeError\<close> and the run ends without rewriting the table: of the two rows
  selected, the second was looked up and what was written for it is lost, and the third
  is not overwritten.
\<close>

theorem reprocess_failed_rewrites_nothing:
  "reprocess_failed
      (\<lambda>n url. (0, if n = 0
                then Response 200
                       (Some (PDict [(''company'', PDict [(''name'', PStr ''BETA SA'')])]))
                else Response 502 (Some (PStr ''Bad Gateway''))))
      (Some \<lparr>columns = [''cnpj_normalizadoapi'', ''cnpj_normalizado'', ''api_success'',
                        ''api_http_status'', ''api_error'', ''razao_social'',
                        ''nome_fantasia'', ''data_abertura'', ''natureza_juridica'',
                        ''porte_id'', ''porte_sigla'', ''porte_descricao'',
                        ''cnae_principal_codigo'', ''cnae_principal_descricao'',
                        ''endereco_logradouro'', ''endereco_numero'',
                        ''endereco_complemento'', ''endereco_bairro'',
                        ''endereco_cidade'', ''endereco_uf'', ''endereco_cep'',
                        ''situacao_cadastral'', ''data_situacao_cadastral'',
                        ''matriz_ou_filial'', ''cnpj_original'', ''cnpj_normalizadoapi.1''],
             rows = [[Some ''11.111.111/0001-11'', Some ''11111111000111'', Some ''True'',
                      Some ''200.0'', None, Some ''ALFA SA'', None, None, None, None,
                      None, None, None, None, None, None, None, None, None, None, None,
                      None, None, None, Some ''11.111.111/0001-11'',
                      Some ''11111111000111''],
                     [Some ''22.222.222/0001-22'', Some ''22222222000122'', Some ''False'',
                      Some ''500.0'', Some ''http_error_500'', None, None, None, None, None,
                      None, None, None, None, None, None, None, None, None, None, None,
                      None, None, None, Some ''22.222.222/0001-22'',
                      Some ''22222222000122''],
                     [Some ''33.333.333/0001-33'', Some ''33333333000133'', Some ''False'',
                      None, Some ''request_exception: timed out'', None, None, None, None,
                      None, None, None, None, None, None, None, None, None, None, None,
                      None, None, None, None, Some ''33.333.333/0001-33'',
                      Some ''33333333000133'']]\<rparr>)
      \<lparr>clock = 0, trace = []\<rparr>
    = Inl AttributeError"
  by code_simp

lemma fetch_attempts_extends:
  "\<exists>evs. trace (snd (fetch_attempts srv url as prev w)) = trace w @ evs"
proof (induction as arbitrary: prev w)
  case Nil
  then show ?case by simp
next
  case (Cons a as)
  obtain rep w1 where g: "requests_get srv url w = (rep, w1)"
    by (cases "requests_get srv url w")
  have t1: "trace w1 = trace w @ [Get url]"
    using trace_requests_get[of srv url w] g by simp
  show ?case
  proof (cases rep)
    case (RequestException e)
    from Cons.IH[of "Some e" "time_sleep (2 ^ a) w1"] obtain evs where
      "trace (snd (fetch_attempts srv url as (Some e) (time_sleep (2 ^ a) w1))) =
         trace (time_sleep (2 ^ a) w1) @ evs" by blast
    then show ?thesis using g RequestException t1 by simp
  next
    case (Response st body)
    then show ?thesis using g t1 by (simp add: Let_def)
  qed
qed

lemma query_cnpj_extends:
  "\<exists>evs. trace (snd (query_cnpj srv cnpj 0 w)) = trace w @ evs"
proof -
  obtain r1 v1 where a1: "fetch_cnpj_data srv cnpj 5 w = (r1, v1)"
    by (cases "fetch_cnpj_data srv cnpj 5 w")
  obtain r2 v2 where a2: "fetch_cnpj_data srv cnpj 5 (time_sleep 60 v1) = (r2, v2)"
    by (cases "fetch_cnpj_data srv cnpj 5 (time_sleep 60 v1)")
  obtain r3 v3 where a3: "fetch_cnpj_data srv cnpj 5 (time_sleep 60 v2) = (r3, v3)"
    by (cases "fetch_cnpj_data srv cnpj 5 (time_sleep 60 v2)")
  have e: "\<exists>evs. trace v' = trace v @ evs" if "fetch_cnpj_data srv cnpj 5 v = (r, v')" for v r v'
    using fetch_attempts_extends[of srv _ _ None v] that
    unfolding fetch_cnpj_data_def by (metis snd_conv)
  from e[OF a1] obtain e1 where t1: "trace v1 = trace w @ e1" by blast
  from e[OF a2] obtain e2 where t2: "trace v2 = trace w @ e1 @ Sleep 60 # e2"
    using t1 by auto
  from e[OF a3] obtain e3 where t3: "trace v3 = trace w @ e1 @ Sleep 60 # e2 @ Sleep 60 # e3"
    using t2 by auto
  show ?thesis
    unfolding query_cnpj_three[OF a1 a2 a3] using t1 t2 t3 by auto
qed

lemma sleep_if_necessary_extends:
  "\<exists>evs. trace (snd (sleep_if_necessary rc ws w)) = trace w @ evs"
  by (simp add: sleep_if_necessary_def Let_def)


lemma at_set_all_get_in:
  assumes "fst ` set kvs \<subseteq> set (columns df)" and "idx < length (rows df)"
    and "length (rows df ! idx) = length (columns df)"
    and "distinct (map fst kvs)" and "(c, v) \<in> set kvs"
  shows "row_get (columns df) (rows (at_set_all df idx kvs) ! idx) c = v"
  using assms
proof (induction kvs arbitrary: df)
  case Nil
  then show ?case by simp
next
  case (Cons kv kvs)
  obtain c0 v0 where kv: "kv = (c0, v0)" by (cases kv)
  have c0: "c0 \<in> set (columns df)" using Cons.prems(1) kv by simp
  let ?d = "at_set df idx c0 v0"
  note g = at_set_get[OF c0 Cons.prems(2,3), where v = v0 and c' = c0]
  note f = at_set_frame[OF c0, where idx = idx and v = v0]
  have 1: "fst ` set kvs \<subseteq> set (columns ?d)" using Cons.prems(1) f(1) by simp
  have 2: "idx < length (rows ?d)" using Cons.prems(2) f(2) by simp
  have 3: "length (rows ?d ! idx) = length (columns ?d)" using g f(1) by simp
  have d: "distinct (map fst kvs)" and n0: "c0 \<notin> fst ` set kvs"
    using Cons.prems(4) kv by auto
  show ?case
  proof (cases "(c, v) \<in> set kvs")
    case True
    from Cons.IH[OF 1 2 3 d True] f(1) show ?thesis by (simp add: kv)
  next
    case False
    then have e: "c = c0" "v = v0" using Cons.prems(5) kv by auto
    from at_set_all_get[OF 1 2 3 n0] g f(1) show ?thesis by (simp add: kv e)
  qed
qed

lemma field_keys:
  "distinct (take 22 enrichment_columns)"
  "''cnpj_original'' \<notin> set (take 22 enrichment_columns)"
  "''cnpj_normalizado'' \<notin> set (take 22 enrichment_columns)"
  "enrichment_columns =
     take 22 enrichment_columns @ [''cnpj_original'', ''cnpj_normalizado'']"
  by (simp_all add: enrichment_columns_def)

lemma retry_row_writes:
  assumes sub: "set enrichment_columns \<subseteq> set (columns df)"
    and i: "idx < length (rows df)"
    and len: "length (rows df ! idx) = length (columns df)"
    and ok: "truthy (row_get (columns df) (rows df ! idx) ''cnpj_normalizado'')"
    and run: "retry_row srv idx (df, request_count, window_start, w) = Inr (df', st')"
  shows "\<exists>r v f.
      query_cnpj srv (row_get (columns df) (rows df ! idx) ''cnpj_normalizado'') 0
        (snd (sleep_if_necessary request_count window_start w)) = (r, v)
      \<and> extract_fields r = Inr f \<and> snd (snd st') = v
      \<and> (\<forall>c x. (c, x) \<in> set f \<longrightarrow> row_get (columns df) (rows df' ! idx) c = x)
      \<and> row_get (columns df) (rows df' ! idx) ''cnpj_original'' =
          row_get (columns df) (rows df ! idx) CNPJ_COLUMN_NAME
      \<and> row_get (columns df) (rows df' ! idx) ''cnpj_normalizado'' =
          row_get (columns df) (rows df ! idx) ''cnpj_normalizado''
      \<and> (\<forall>c. c \<notin> set enrichment_columns \<longrightarrow>
            row_get (columns df) (rows df' ! idx) c = row_get (columns df) (rows df ! idx) c)"
proof -
  let ?cnpj = "row_get (columns df) (rows df ! idx) ''cnpj_normalizado''"
  let ?raw = "row_get (columns df) (rows df ! idx) CNPJ_COLUMN_NAME"
  have m: "''cnpj_original'' \<in> set (columns df)" "''cnpj_normalizado'' \<in> set (columns df)"
    using sub by (auto simp: enrichment_columns_def)
  from run ok obtain r v f where
    q: "query_cnpj srv ?cnpj 0 (snd (sleep_if_necessary request_count window_start w)) = (r, v)"
    and e: "extract_fields r = Inr f"
    and s: "snd (snd st') = v"
    and d: "df' = at_set (at_set (at_set_all df idx f) idx ''cnpj_original'' ?raw)
                idx ''cnpj_normalizado'' ?cnpj"
    by (auto simp: retry_row_def Let_def split: prod.splits sum.splits)
  have keys: "map fst f = take 22 enrichment_columns"
    by (rule extract_fields_keys[OF e])
  have dist: "distinct (map fst f)" unfolding keys by (rule field_keys(1))
  have no: "''cnpj_original'' \<notin> fst ` set f" and nn: "''cnpj_normalizado'' \<notin> fst ` set f"
    using field_keys(2,3) keys by (metis set_map)+
  have "set (map fst f) \<subseteq> set enrichment_columns"
    unfolding keys by (rule set_take_subset)
  then have k: "fst ` set f \<subseteq> set (columns df)"
    using sub by auto
  let ?d1 = "at_set_all df idx f"
  note f1 = at_set_all_frame[OF k, of idx]
  note g1 = at_set_all_get[OF k i len]
  have c1: "''cnpj_original'' \<in> set (columns ?d1)" using f1 m(1) by simp
  have i1: "idx < length (rows ?d1)" using f1 i by simp
  have l1: "length (rows ?d1 ! idx) = length (columns ?d1)" using g1[OF no] f1 by simp
  let ?d2 = "at_set ?d1 idx ''cnpj_original'' ?raw"
  note g2 = at_set_get[OF c1 i1 l1, where v = ?raw]
  note f2 = at_set_frame[OF c1, where idx = idx and v = ?raw]
  have c2: "''cnpj_normalizado'' \<in> set (columns ?d2)" using f2(1) f1 m(2) by simp
  have i2: "idx < length (rows ?d2)" using f2(2) i1 by simp
  have l2: "length (rows ?d2 ! idx) = length (columns ?d2)" using g2 f2(1) by simp
  note g3 = at_set_get[OF c2 i2 l2, where v = ?cnpj]
  have cols: "columns ?d2 = columns df" "columns ?d1 = columns df"
    using f2(1) f1 by simp_all
  have get: "row_get (columns df) (rows df' ! idx) c =
      (if c = ''cnpj_normalizado'' then ?cnpj
       else if c = ''cnpj_original'' then ?raw
       else row_get (columns df) (rows ?d1 ! idx) c)" for c
    unfolding d using g3[of c] g2[of c] cols by simp
  have a: "row_get (columns df) (rows df' ! idx) c = x" if "(c, x) \<in> set f" for c x
  proof -
    have "c \<in> fst ` set f" using that by (metis fst_conv image_eqI)
    then have "c \<noteq> ''cnpj_normalizado''" "c \<noteq> ''cnpj_original''" using no nn by blast+
    then show ?thesis
      using get[of c] at_set_all_get_in[OF k i len dist that] by simp
  qed
  have b: "row_get (columns df) (rows df' ! idx) c = row_get (columns df) (rows df ! idx) c"
    if "c \<notin> set enrichment_columns" for c
  proof -
    have "set enrichment_columns = set (map fst f) \<union> {''cnpj_original'', ''cnpj_normalizado''}"
      unfolding keys by (subst field_keys(4)) simp
    with that have n: "c \<notin> fst ` set f" "c \<noteq> ''cnpj_normalizado''" "c \<noteq> ''cnpj_original''"
      by auto
    then show ?thesis
      using get[of c] g1[OF n(1)] by simp
  qed
  from q e s a b get[of "''cnpj_original''"] get[of "''cnpj_normalizado''"]
  show ?thesis by auto
qed


lemma retry_row_invalid:
  assumes sub: "set enrichment_columns \<subseteq> set (columns df)"
    and i: "idx < length (rows df)"
    and len: "length (rows df ! idx) = length (columns df)"
    and no: "\<not> truthy (row_get (columns df) (rows df ! idx) ''cnpj_normalizado'')"
    and run: "retry_row srv idx (df, st) = Inr (df', st')"
  shows "st' = st
     \<and> (\<forall>c. row_get (columns df) (rows df' ! idx) c =
           (if c = ''api_error'' then PStr ''cnpj_invalido_retry''
            else if c = ''api_success'' then PBool False
            else row_get (columns df) (rows df ! idx) c))"
proof -
  obtain request_count window_start w where st: "st = (request_count, window_start, w)"
    by (cases st)
  have m: "''api_success'' \<in> set (columns df)" "''api_error'' \<in> set (columns df)"
    using sub by (auto simp: enrichment_columns_def)
  let ?d1 = "at_set df idx ''api_success'' (PBool False)"
  from run no st
  have d: "df' = at_set ?d1 idx ''api_error'' (PStr ''cnpj_invalido_retry'')" and s: "st' = st"
    by (simp_all add: retry_row_def Let_def)
  note f1 = at_set_frame[OF m(1), where idx = idx and v = "PBool False"]
  note g1 = at_set_get[OF m(1) i len, where v = "PBool False"]
  have e: "''api_error'' \<in> set (columns ?d1)" using f1(1) m(2) by simp
  have i1: "idx < length (rows ?d1)" using f1(2) i by simp
  have l1: "length (rows ?d1 ! idx) = length (columns ?d1)" using g1 f1(1) by simp
  note g2 = at_set_get[OF e i1 l1, where v = "PStr ''cnpj_invalido_retry''"]
  have "row_get (columns df) (rows df' ! idx) c =
           (if c = ''api_error'' then PStr ''cnpj_invalido_retry''
            else if c = ''api_success'' then PBool False
            else row_get (columns df) (rows df ! idx) c)" for c
    unfolding d using g2[of c] g1[of c] f1(1) by simp
  with s show ?thesis by blast
qed

lemma retry_row_extends:
  assumes "retry_row srv idx (df, st) = Inr (df', st')"
  shows "\<exists>evs. trace (snd (snd st')) = trace (snd (snd st)) @ evs"
proof -
  obtain request_count window_start w where st: "st = (request_count, window_start, w)"
    by (cases st)
  let ?cnpj = "row_get (columns df) (rows df ! idx) ''cnpj_normalizado''"
  show ?thesis
  proof (cases "truthy ?cnpj")
    case False
    with assms st have "st' = st" by (simp add: retry_row_def Let_def)
    then show ?thesis by simp
  next
    case True
    let ?w1 = "snd (sleep_if_necessary request_count window_start w)"
    from assms True st have "snd (snd st') = snd (query_cnpj srv ?cnpj 0 ?w1)"
      by (auto simp: retry_row_def Let_def split: prod.splits sum.splits)
    moreover from sleep_if_necessary_extends obtain a where
      "trace ?w1 = trace w @ a" by blast
    moreover from query_cnpj_extends obtain b where
      "trace (snd (query_cnpj srv ?cnpj 0 ?w1)) = trace ?w1 @ b" by blast
    ultimately show ?thesis using st by simp
  qed
qed

lemma retry_loop_extends:
  assumes "retry_loop srv idxs (df, st) = Inr (df', st')"
  shows "\<exists>evs. trace (snd (snd st')) = trace (snd (snd st)) @ evs"
  using assms
proof (induction idxs arbitrary: df st)
  case Nil
  then show ?case by simp
next
  case (Cons idx idxs)
  from Cons.prems obtain df1 st1 where
    r: "retry_row srv idx (df, st) = Inr (df1, st1)"
    and l: "retry_loop srv idxs (df1, st1) = Inr (df', st')"
    by (auto split: sum.splits)
  from retry_row_extends[OF r] Cons.IH[OF l] show ?case by auto
qed

lemma retry_loop_turn:
  assumes "set enrichment_columns \<subseteq> set (columns df)"
    and "retry_loop srv idxs (df, st) = Inr (df', st')"
    and "distinct idxs" and "i \<in> set idxs"
  shows "\<exists>dfi sti df1 st1 a b.
      retry_row srv i (dfi, sti) = Inr (df1, st1)
      \<and> columns dfi = columns df \<and> length (rows dfi) = length (rows df)
      \<and> rows dfi ! i = rows df ! i \<and> rows df' ! i = rows df1 ! i
      \<and> trace (snd (snd sti)) = trace (snd (snd st)) @ a
      \<and> trace (snd (snd st')) = trace (snd (snd st1)) @ b"
  using assms
proof (induction idxs arbitrary: df st)
  case Nil
  then show ?case by simp
next
  case (Cons idx idxs)
  from Cons.prems(2) obtain df1 st1 where
    r: "retry_row srv idx (df, st) = Inr (df1, st1)"
    and l: "retry_loop srv idxs (df1, st1) = Inr (df', st')"
    by (auto split: sum.splits)
  note f = retry_row_frame[OF Cons.prems(1) r]
  have sub1: "set enrichment_columns \<subseteq> set (columns df1)"
    using f Cons.prems(1) by simp
  have d: "distinct idxs" and ni: "idx \<notin> set idxs" using Cons.prems(3) by simp_all
  show ?case
  proof (cases "i = idx")
    case True
    from retry_loop_frame[OF sub1 l] ni True have "rows df' ! i = rows df1 ! i" by simp
    moreover from retry_loop_extends[OF l] obtain b where
      "trace (snd (snd st')) = trace (snd (snd st1)) @ b" by blast
    moreover have "trace (snd (snd st)) = trace (snd (snd st)) @ []" by simp
    ultimately show ?thesis using r True by blast
  next
    case False
    then have "i \<in> set idxs" using Cons.prems(4) by simp
    from Cons.IH[OF sub1 l d this] obtain dfi sti df2 st2 a b where
      t: "retry_row srv i (dfi, sti) = Inr (df2, st2)"
      and c: "columns dfi = columns df1" "length (rows dfi) = length (rows df1)"
        "rows dfi ! i = rows df1 ! i" "rows df' ! i = rows df2 ! i"
      and ta: "trace (snd (snd sti)) = trace (snd (snd st1)) @ a"
      and tb: "trace (snd (snd st')) = trace (snd (snd st2)) @ b"
      by blast
    from retry_row_extends[OF r] obtain a0 where
      "trace (snd (snd st1)) = trace (snd (snd st)) @ a0" by blast
    with ta have ta': "trace (snd (snd sti)) = trace (snd (snd st)) @ (a0 @ a)" by simp
    from c f False have c': "columns dfi = columns df" "length (rows dfi) = length (rows df)"
        "rows dfi ! i = rows df ! i" by simp_all
    from t c' c(4) ta' tb show ?thesis by blast
  qed
qed


text \<open>
  What a retry-only run that completes has done for a row it selected, for any service.
  At some moment \<open>v\<close> of the run the turn of the row began. When the identifier read for
  the row is not usable, the turn sent nothing and wrote the failure marker
  \<open>cnpj_invalido_retry\<close>, leaving every other cell. Otherwise the turn went through the
  limiter and looked the identifier up, the events of that lookup are part of the run,
  and the cells of the row in the table written are the flattened fields of the result of
  that lookup, the two identifier cells are written back, and every cell outside the
  enrichment columns is as it was read.
\<close>

theorem reprocess_failed_selected_row:
  assumes run: "reprocess_failed srv (Some file) w = Inr (Some out, w')"
    and sub: "set enrichment_columns \<subseteq> set (columns file)"
    and i: "i < length (rows file)"
    and len: "length (rows file ! i) = length (columns file)"
    and sel: "mask_retry (columns file) (rows (read_csv file) ! i)"
  shows "\<exists>request_count window_start v a b.
      trace v = trace w @ a \<and>
      (if \<not> truthy (row_get (columns file) (rows (read_csv file) ! i) ''cnpj_normalizado'')
       then trace w' = trace v @ b
          \<and> (\<forall>c. row_get (columns file) (rows out ! i) c =
                (if c = ''api_error'' then PStr ''cnpj_invalido_retry''
                 else if c = ''api_success'' then PBool False
                 else row_get (columns file) (rows (read_csv file) ! i) c))
       else (\<exists>r v' f.
            query_cnpj srv
              (row_get (columns file) (rows (read_csv file) ! i) ''cnpj_normalizado'') 0
              (snd (sleep_if_necessary request_count window_start v)) = (r, v')
          \<and> trace w' = trace v' @ b
          \<and> extract_fields r = Inr f
          \<and> (\<forall>c x. (c, x) \<in> set f \<longrightarrow> row_get (columns file) (rows out ! i) c = x)
          \<and> row_get (columns file) (rows out ! i) ''cnpj_original'' =
              row_get (columns file) (rows (read_csv file) ! i) CNPJ_COLUMN_NAME
          \<and> row_get (columns file) (rows out ! i) ''cnpj_normalizado'' =
              row_get (columns file) (rows (read_csv file) ! i) ''cnpj_normalizado''
          \<and> (\<forall>c. c \<notin> set enrichment_columns \<longrightarrow>
                row_get (columns file) (rows out ! i) c =
                row_get (columns file) (rows (read_csv file) ! i) c)))"
proof -
  let ?df = "read_csv file"
  let ?idxs = "filter (\<lambda>i. mask_retry (columns ?df) (rows ?df ! i)) [0..<length (rows ?df)]"
  let ?cnpj = "row_get (columns file) (rows ?df ! i) ''cnpj_normalizado''"
  have c0: "columns ?df = columns file" and l0: "length (rows ?df) = length (rows file)"
    by (simp_all add: read_csv_def)
  have rl: "length (rows ?df ! i) = length (columns file)"
    using i len by (simp add: read_csv_def)
  have sub': "set enrichment_columns \<subseteq> set (columns ?df)" using sub c0 by simp
  from run obtain rc' ws' where
    l: "retry_loop srv ?idxs (?df, 0, clock w, w) = Inr (out, rc', ws', w')"
    by (auto simp: reprocess_failed_def Let_def split: if_splits sum.splits)
  have d: "distinct ?idxs" by simp
  have m: "i \<in> set ?idxs" using sel i c0 l0 by simp
  from retry_loop_turn[OF sub' l d m] obtain dfi sti df1 st1 a b where
    t: "retry_row srv i (dfi, sti) = Inr (df1, st1)"
    and ci: "columns dfi = columns file" and li: "length (rows dfi) = length (rows file)"
    and ri: "rows dfi ! i = rows ?df ! i" and ro: "rows out ! i = rows df1 ! i"
    and ta: "trace (snd (snd sti)) = trace w @ a"
    and tb: "trace w' = trace (snd (snd st1)) @ b"
    using c0 l0 by auto
  obtain request_count window_start v where sti: "sti = (request_count, window_start, v)"
    by (cases sti)
  have subi: "set enrichment_columns \<subseteq> set (columns dfi)" using sub ci by simp
  have ii: "i < length (rows dfi)" using i li by simp
  have leni: "length (rows dfi ! i) = length (columns dfi)" using rl ri ci by simp
  have tv: "trace v = trace w @ a" using ta sti by simp
  show ?thesis
  proof (cases "truthy ?cnpj")
    case False
    then have no: "\<not> truthy (row_get (columns dfi) (rows dfi ! i) ''cnpj_normalizado'')"
      using ci ri by simp
    from retry_row_invalid[OF subi ii leni no t]
    have s: "st1 = sti"
      and g: "\<forall>c. row_get (columns file) (rows out ! i) c =
           (if c = ''api_error'' then PStr ''cnpj_invalido_retry''
            else if c = ''api_success'' then PBool False
            else row_get (columns file) (rows ?df ! i) c)"
      using ci ri ro by simp_all
    have "trace w' = trace v @ b" using tb s sti by simp
    with tv g False show ?thesis
      by (intro exI[of _ request_count] exI[of _ window_start] exI[of _ v]
          exI[of _ a] exI[of _ b]) simp
  next
    case True
    then have ok: "truthy (row_get (columns dfi) (rows dfi ! i) ''cnpj_normalizado'')"
      using ci ri by simp
    from retry_row_writes[OF subi ii leni ok t[unfolded sti]] obtain r v' f where
      q: "query_cnpj srv ?cnpj 0 (snd (sleep_if_necessary request_count window_start v)) = (r, v')"
      and e: "extract_fields r = Inr f" and s: "snd (snd st1) = v'"
      and g1: "\<forall>c x. (c, x) \<in> set f \<longrightarrow> row_get (columns file) (rows out ! i) c = x"
      and g2: "row_get (columns file) (rows out ! i) ''cnpj_original'' =
          row_get (columns file) (rows ?df ! i) CNPJ_COLUMN_NAME"
      and g3: "row_get (columns file) (rows out ! i) ''cnpj_normalizado'' = ?cnpj"
      and g4: "\<forall>c. c \<notin> set enrichment_columns \<longrightarrow>
            row_get (columns file) (rows out ! i) c = row_get (columns file) (rows ?df ! i) c"
      unfolding ci ri ro[symmetric] by blast
    have tw: "trace w' = trace v' @ b" using tb s by simp
    from q tw e g1 g2 g3 g4 have "\<exists>r v' f.
            query_cnpj srv ?cnpj 0
              (snd (sleep_if_necessary request_count window_start v)) = (r, v')
          \<and> trace w' = trace v' @ b
          \<and> extract_fields r = Inr f
          \<and> (\<forall>c x. (c, x) \<in> set f \<longrightarrow> row_get (columns file) (rows out ! i) c = x)
          \<and> row_get (columns file) (rows out ! i) ''cnpj_original'' =
              row_get (columns file) (rows ?df ! i) CNPJ_COLUMN_NAME
          \<and> row_get (columns file) (rows out ! i) ''cnpj_normalizado'' = ?cnpj
          \<and> (\<forall>c. c \<notin> set enrichment_columns \<longrightarrow>
                row_get (columns file) (rows out ! i) c =
                row_get (columns file) (rows ?df ! i) c)"
      by blast
    with tv True show ?thesis
      by (intro exI[of _ request_count] exI[of _ window_start] exI[of _ v]
          exI[of _ a] exI[of _ b]) simp
  qed
qed


theorem reprocess_failed_selected_row_witness:
  "reprocess_failed
      (\<lambda>n url. (0, Response 200
        (Some (PDict [(''company'', PDict [(''name'', PStr ''BETA SA'')])]))))
      (Some \<lparr>columns =
          [''cnpj_normalizadoapi'', ''cnpj_normalizado'', ''api_success'',
           ''api_http_status'', ''api_error'', ''razao_social'', ''nome_fantasia'',
           ''data_abertura'', ''natureza_juridica'', ''porte_id'', ''porte_sigla'',
           ''porte_descricao'', ''cnae_principal_codigo'', ''cnae_principal_descricao'',
           ''endereco_logradouro'', ''endereco_numero'', ''endereco_complemento'',
           ''endereco_bairro'', ''endereco_cidade'', ''endereco_uf'', ''endereco_cep'',
           ''situacao_cadastral'', ''data_situacao_cadastral'', ''matriz_ou_filial'',
           ''cnpj_original'', ''cnpj_normalizadoapi.1''],
        rows =
          [[Some ''22.222.222/0001-22'', Some ''22222222000122'', Some ''False'',
            Some ''500.0'', Some ''http_error_500'', None, None, None, None, None, None,
            None, None, None, None, None, None, None, None, None, None, None, None, None,
            Some ''22.222.222/0001-22'', Some ''22222222000122'']]\<rparr>)
      \<lparr>clock = 0, trace = []\<rparr>
    = Inr (Some \<lparr>columns =
          [''cnpj_normalizadoapi'', ''cnpj_normalizado'', ''api_success'',
           ''api_http_status'', ''api_error'', ''razao_social'', ''nome_fantasia'',
           ''data_abertura'', ''natureza_juridica'', ''porte_id'', ''porte_sigla'',
           ''porte_descricao'', ''cnae_principal_codigo'', ''cnae_principal_descricao'',
           ''endereco_logradouro'', ''endereco_numero'', ''endereco_complemento'',
           ''endereco_bairro'', ''endereco_cidade'', ''endereco_uf'', ''endereco_cep'',
           ''situacao_cadastral'', ''data_situacao_cadastral'', ''matriz_ou_filial'',
           ''cnpj_original'', ''cnpj_normalizadoapi.1''],
        rows =
          [[PStr ''22.222.222/0001-22'', PStr ''22222222000122'', PBool True, PInt 200,
            PNone, PStr ''BETA SA'', PNone, PNone, PNone, PNone, PNone, PNone, PNone,
            PNone, PNone, PNone, PNone, PNone, PNone, PNone, PNone, PNone, PNone, PNone,
            PStr ''22.222.222/0001-22'', PStr ''22222222000122'']]\<rparr>,
           \<lparr>clock = 0, trace = [Get ''https://api.cnpja.com/office/22222222000122'']\<rparr>)
   \<and> row_get
        [''cnpj_normalizadoapi'', ''cnpj_normalizado'', ''api_success'',
           ''api_http_status'', ''api_error'', ''razao_social'', ''nome_fantasia'',
           ''data_abertura'', ''natureza_juridica'', ''porte_id'', ''porte_sigla'',
           ''porte_descricao'', ''cnae_principal_codigo'', ''cnae_principal_descricao'',
           ''endereco_logradouro'', ''endereco_numero'', ''endereco_complemento'',
           ''endereco_bairro'', ''endereco_cidade'', ''endereco_uf'', ''endereco_cep'',
           ''situacao_cadastral'', ''data_situacao_cadastral'', ''matriz_ou_filial'',
           ''cnpj_original'', ''cnpj_normalizadoapi.1'']
        (rows \<lparr>columns =
          [''cnpj_normalizadoapi'', ''cnpj_normalizado'', ''api_success'',
           ''api_http_status'', ''api_error'', ''razao_social'', ''nome_fantasia'',
           ''data_abertura'', ''natureza_juridica'', ''porte_id'', ''porte_sigla'',
           ''porte_descricao'', ''cnae_principal_codigo'', ''cnae_principal_descricao'',
           ''endereco_logradouro'', ''endereco_numero'', ''endereco_complemento'',
           ''endereco_bairro'', ''endereco_cidade'', ''endereco_uf'', ''endereco_cep'',
           ''situacao_cadastral'', ''data_situacao_cadastral'', ''matriz_ou_filial'',
           ''cnpj_original'', ''cnpj_normalizadoapi.1''],
        rows =
          [[PStr ''22.222.222/0001-22'', PStr ''22222222000122'', PBool True, PInt 200,
            PNone, PStr ''BETA SA'', PNone, PNone, PNone, PNone, PNone, PNone, PNone,
            PNone, PNone, PNone, PNone, PNone, PNone, PNone, PNone, PNone, PNone, PNone,
            PStr ''22.222.222/0001-22'', PStr ''22222222000122'']]\<rparr> ! 0) ''cnpj_original''
      = PStr ''22.222.222/0001-22''"
proof -
  let ?srv = "(\<lambda>n url. (0, Response 200
        (Some (PDict [(''company'', PDict [(''name'', PStr ''BETA SA'')])]))))"
  let ?file = "\<lparr>columns =
          [''cnpj_normalizadoapi'', ''cnpj_normalizado'', ''api_success'',
           ''api_http_status'', ''api_error'', ''razao_social'', ''nome_fantasia'',
           ''data_abertura'', ''natureza_juridica'', ''porte_id'', ''porte_sigla'',
           ''porte_descricao'', ''cnae_principal_codigo'', ''cnae_principal_descricao'',
           ''endereco_logradouro'', ''endereco_numero'', ''endereco_complemento'',
           ''endereco_bairro'', ''endereco_cidade'', ''endereco_uf'', ''endereco_cep'',
           ''situacao_cadastral'', ''data_situacao_cadastral'', ''matriz_ou_filial'',
           ''cnpj_original'', ''cnpj_normalizadoapi.1''],
        rows =
          [[Some ''22.222.222/0001-22'', Some ''22222222000122'', Some ''False'',
            Some ''500.0'', Some ''http_error_500'', None, None, None, None, None, None,
            None, None, None, None, None, None, None, None, None, None, None, None, None,
            Some ''22.222.222/0001-22'', Some ''22222222000122'']]\<rparr>"
  let ?out = "\<lparr>columns =
          [''cnpj_normalizadoapi'', ''cnpj_normalizado'', ''api_success'',
           ''api_http_status'', ''api_error'', ''razao_social'', ''nome_fantasia'',
           ''data_abertura'', ''natureza_juridica'', ''porte_id'', ''porte_sigla'',
           ''porte_descricao'', ''cnae_principal_codigo'', ''cnae_principal_descricao'',
           ''endereco_logradouro'', ''endereco_numero'', ''endereco_complemento'',
           ''endereco_bairro'', ''endereco_cidade'', ''endereco_uf'', ''endereco_cep'',
           ''situacao_cadastral'', ''data_situacao_cadastral'', ''matriz_ou_filial'',
           ''cnpj_original'', ''cnpj_normalizadoapi.1''],
        rows =
          [[PStr ''22.222.222/0001-22'', PStr ''22222222000122'', PBool True, PInt 200,
            PNone, PStr ''BETA SA'', PNone, PNone, PNone, PNone, PNone, PNone, PNone,
            PNone, PNone, PNone, PNone, PNone, PNone, PNone, PNone, PNone, PNone, PNone,
            PStr ''22.222.222/0001-22'', PStr ''22222222000122'']]\<rparr>"
  have run: "reprocess_failed ?srv (Some ?file) \<lparr>clock = 0, trace = []\<rparr> =
      Inr (Some ?out, \<lparr>clock = 0, trace = [Get ''https://api.cnpja.com/office/22222222000122'']\<rparr>)"
    by code_simp
  have sub: "set enrichment_columns \<subseteq> set (columns ?file)"
    by (simp add: enrichment_columns_def)
  have i: "0 < length (rows ?file)" and len: "length (rows ?file ! 0) = length (columns ?file)"
    by simp_all
  have sel: "mask_retry (columns ?file) (rows (read_csv ?file) ! 0)"
    by code_simp
  have ok: "truthy (row_get (columns ?file) (rows (read_csv ?file) ! 0) ''cnpj_normalizado'')"
    by code_simp
  have raw: "row_get (columns ?file) (rows (read_csv ?file) ! 0) CNPJ_COLUMN_NAME =
      PStr ''22.222.222/0001-22''"
    by code_simp
  note t = reprocess_failed_selected_row[OF run sub i len sel]
  from t have "row_get (columns ?file) (rows ?out ! 0) ''cnpj_original'' =
      row_get (columns ?file) (rows (read_csv ?file) ! 0) CNPJ_COLUMN_NAME"
    unfolding ok[THEN eqTrueI] not_True_eq_False if_False by blast
  then have "row_get (columns ?file) (rows ?out ! 0) ''cnpj_original'' =
      PStr ''22.222.222/0001-22''"
    unfolding raw .
  with run show ?thesis by simp
qed

text \<open>
  What both drivers record after three lookups answered 429, when the payload of the
  third answer is one the flattener accepts: the full run appends a record, and the
  retry-only run writes the cells of the row, with the success flag \<open>False\<close>, the status
  429 and the error text \<open>http_error_429\<close>.
\<close>

theorem drivers_record_third_429:
  assumes ok: "truthy (row_get (columns df) (rows df ! idx) ''cnpj_normalizado'')"
    and lim: "sleep_if_necessary request_count window_start w =
               ((request_count1, window_start1), w1)"
    and a1: "fetch_cnpj_data srv (row_get (columns df) (rows df ! idx) ''cnpj_normalizado'')
               5 w1 = (r1, v1)"
    and s1: "http_status r1 = Some 429"
    and a2: "fetch_cnpj_data srv (row_get (columns df) (rows df ! idx) ''cnpj_normalizado'')
               5 (time_sleep 60 v1) = (r2, v2)"
    and s2: "http_status r2 = Some 429"
    and a3: "fetch_cnpj_data srv (row_get (columns df) (rows df ! idx) ''cnpj_normalizado'')
               5 (time_sleep 60 v2) = (r3, v3)"
    and s3: "http_status r3 = Some 429"
    and fl: "flattens (data r3)"
  shows "(\<exists>entry.
            main_row srv (columns df) idx (rows df ! idx) (request_count, window_start, w) =
              Inr (entry, request_count1 + 1, window_start1, time_sleep (1 / 2) v3)
          \<and> map_of entry ''api_success'' = Some (PBool False)
          \<and> map_of entry ''api_http_status'' = Some (PInt 429)
          \<and> map_of entry ''api_error'' = Some (PStr ''http_error_429'')
          \<and> map_of entry ''index_origem'' = Some (PInt (int idx)))
     \<and> (set enrichment_columns \<subseteq> set (columns df) \<and> idx < length (rows df)
          \<and> length (rows df ! idx) = length (columns df) \<longrightarrow>
         (\<exists>df'.
            retry_row srv idx (df, request_count, window_start, w) =
              Inr (df', request_count1 + 1, window_start1, v3)
          \<and> row_get (columns df) (rows df' ! idx) ''api_success'' = PBool False
          \<and> row_get (columns df) (rows df' ! idx) ''api_http_status'' = PInt 429
          \<and> row_get (columns df) (rows df' ! idx) ''api_error'' = PStr ''http_error_429''))"
proof -
  let ?cnpj = "row_get (columns df) (rows df ! idx) ''cnpj_normalizado''"
  let ?raw = "row_get (columns df) (rows df ! idx) CNPJ_COLUMN_NAME"
  have q: "query_cnpj srv ?cnpj 0 w1 = (r3, v3)"
    using query_cnpj_three[OF a1 a2 a3] s1 s2 by simp
  have s429: "str_int 429 = ''429''"
    by code_simp
  have f3: "success r3 = False" "error r3 = Some ''http_error_429''"
    using fetch_cnpj_data_status[OF a3 s3] s429 by simp_all
  from extract_fields_flattens[OF fl] obtain f where e: "extract_fields r3 = Inr f"
    by blast
  from extract_fields_envelope[OF e] obtain f' where
    f: "f = (''api_success'', PBool False) # (''api_http_status'', PInt 429) #
            (''api_error'', PStr ''http_error_429'') # f'"
    using f3 s3 by (auto simp: opt_int_def opt_str_def)
  let ?entry = "dict_set (dict_set (dict_set f ''index_origem'' (PInt (int idx)))
                     ''cnpj_original'' ?raw) ''cnpj_normalizado'' ?cnpj"
  have m: "main_row srv (columns df) idx (rows df ! idx) (request_count, window_start, w) =
      Inr (?entry, request_count1 + 1, window_start1, time_sleep (1 / 2) v3)"
    using ok lim q e unfolding main_row_def by (simp add: Let_def)
  have mr: "map_of ?entry ''api_success'' = Some (PBool False)"
    "map_of ?entry ''api_http_status'' = Some (PInt 429)"
    "map_of ?entry ''api_error'' = Some (PStr ''http_error_429'')"
    "map_of ?entry ''index_origem'' = Some (PInt (int idx))"
    by (simp_all add: map_of_dict_set f)
  have retry: "\<exists>df'.
            retry_row srv idx (df, request_count, window_start, w) =
              Inr (df', request_count1 + 1, window_start1, v3)
          \<and> row_get (columns df) (rows df' ! idx) ''api_success'' = PBool False
          \<and> row_get (columns df) (rows df' ! idx) ''api_http_status'' = PInt 429
          \<and> row_get (columns df) (rows df' ! idx) ''api_error'' = PStr ''http_error_429''"
    if sub: "set enrichment_columns \<subseteq> set (columns df)" and i: "idx < length (rows df)"
      and len: "length (rows df ! idx) = length (columns df)"
  proof -
    let ?df' = "at_set (at_set (at_set_all df idx f) idx ''cnpj_original'' ?raw)
                  idx ''cnpj_normalizado'' ?cnpj"
    have r: "retry_row srv idx (df, request_count, window_start, w) =
        Inr (?df', request_count1 + 1, window_start1, v3)"
      using ok lim q e unfolding retry_row_def by (simp add: Let_def)
    from retry_row_writes[OF sub i len ok r] q e lim
    have "\<forall>c x. (c, x) \<in> set f \<longrightarrow> row_get (columns df) (rows ?df' ! idx) c = x"
      by auto
    then have "row_get (columns df) (rows ?df' ! idx) ''api_success'' = PBool False"
      "row_get (columns df) (rows ?df' ! idx) ''api_http_status'' = PInt 429"
      "row_get (columns df) (rows ?df' ! idx) ''api_error'' = PStr ''http_error_429''"
      unfolding f by simp_all
    with r show ?thesis by blast
  qed
  from m mr retry show ?thesis by blast
qed

theorem drivers_record_third_429_witness:
  "(\<exists>entry.
      main_row (\<lambda>n url. (0, Response 429 (Some (PDict [(''message'', PStr ''Too Many Requests'')]))))
        [''cnpj_normalizadoapi'', ''cnpj_normalizado'', ''api_success'',
        ''api_http_status'', ''api_error'', ''razao_social'', ''nome_fantasia'',
        ''data_abertura'', ''natureza_juridica'', ''porte_id'', ''porte_sigla'',
        ''porte_descricao'', ''cnae_principal_codigo'', ''cnae_principal_descricao'',
        ''endereco_logradouro'', ''endereco_numero'', ''endereco_complemento'',
        ''endereco_bairro'', ''endereco_cidade'', ''endereco_uf'', ''endereco_cep'',
        ''situacao_cadastral'', ''data_situacao_cadastral'', ''matriz_ou_filial'',
        ''cnpj_original'', ''cnpj_normalizadoapi.1''] 0
        [PStr ''12.345.678/0001-95'', PStr ''12345678000195'', PStr ''False'',
         PStr ''500.0'', PStr ''http_error_500'', PNaN, PNaN, PNaN, PNaN, PNaN, PNaN,
         PNaN, PNaN, PNaN, PNaN, PNaN, PNaN, PNaN, PNaN, PNaN, PNaN, PNaN, PNaN, PNaN,
         PStr ''12.345.678/0001-95'', PStr ''12345678000195'']
        (0, 0, \<lparr>clock = 0, trace = []\<rparr>) =
        Inr (entry, 1, 0,
             \<lparr>clock = 241 / 2,
              trace = [Get ''https://api.cnpja.com/office/12345678000195'', Sleep 60,
                       Get ''https://api.cnpja.com/office/12345678000195'', Sleep 60,
                       Get ''https://api.cnpja.com/office/12345678000195'', Sleep (1 / 2)]\<rparr>)
      \<and> map_of entry ''api_success'' = Some (PBool False)
      \<and> map_of entry ''api_http_status'' = Some (PInt 429)
      \<and> map_of entry ''api_error'' = Some (PStr ''http_error_429''))
   \<and> (\<exists>df'.
      retry_row (\<lambda>n url. (0, Response 429 (Some (PDict [(''message'', PStr ''Too Many Requests'')])))) 0
        (\<lparr>columns = [''cnpj_normalizadoapi'', ''cnpj_normalizado'', ''api_success'',
        ''api_http_status'', ''api_error'', ''razao_social'', ''nome_fantasia'',
        ''data_abertura'', ''natureza_juridica'', ''porte_id'', ''porte_sigla'',
        ''porte_descricao'', ''cnae_principal_codigo'', ''cnae_principal_descricao'',
        ''endereco_logradouro'', ''endereco_numero'', ''endereco_complemento'',
        ''endereco_bairro'', ''endereco_cidade'', ''endereco_uf'', ''endereco_cep'',
        ''situacao_cadastral'', ''data_situacao_cadastral'', ''matriz_ou_filial'',
        ''cnpj_original'', ''cnpj_normalizadoapi.1''],
          rows = [[PStr ''12.345.678/0001-95'', PStr ''12345678000195'', PStr ''False'',
         PStr ''500.0'', PStr ''http_error_500'', PNaN, PNaN, PNaN, PNaN, PNaN, PNaN,
         PNaN, PNaN, PNaN, PNaN, PNaN, PNaN, PNaN, PNaN, PNaN, PNaN, PNaN, PNaN, PNaN,
         PStr ''12.345.678/0001-95'', PStr ''12345678000195'']]\<rparr>,
         0, 0, \<lparr>clock = 0, trace = []\<rparr>) =
        Inr (df', 1, 0,
             \<lparr>clock = 120,
              trace = [Get ''https://api.cnpja.com/office/12345678000195'', Sleep 60, Get ''https://api.cnpja.com/office/12345678000195'', Sleep 60, Get ''https://api.cnpja.com/office/12345678000195'']\<rparr>)
      \<and> row_get [''cnpj_normalizadoapi'', ''cnpj_normalizado'', ''api_success'',
        ''api_http_status'', ''api_error'', ''razao_social'', ''nome_fantasia'',
        ''data_abertura'', ''natureza_juridica'', ''porte_id'', ''porte_sigla'',
        ''porte_descricao'', ''cnae_principal_codigo'', ''cnae_principal_descricao'',
        ''endereco_logradouro'', ''endereco_numero'', ''endereco_complemento'',
        ''endereco_bairro'', ''endereco_cidade'', ''endereco_uf'', ''endereco_cep'',
        ''situacao_cadastral'', ''data_situacao_cadastral'', ''matriz_ou_filial'',
        ''cnpj_original'', ''cnpj_normalizadoapi.1''] (rows df' ! 0) ''api_success'' = PBool False
      \<and> row_get [''cnpj_normalizadoapi'', ''cnpj_normalizado'', ''api_success'',
        ''api_http_status'', ''api_error'', ''razao_social'', ''nome_fantasia'',
        ''data_abertura'', ''natureza_juridica'', ''porte_id'', ''porte_sigla'',
        ''porte_descricao'', ''cnae_principal_codigo'', ''cnae_principal_descricao'',
        ''endereco_logradouro'', ''endereco_numero'', ''endereco_complemento'',
        ''endereco_bairro'', ''endereco_cidade'', ''endereco_uf'', ''endereco_cep'',
        ''situacao_cadastral'', ''data_situacao_cadastral'', ''matriz_ou_filial'',
        ''cnpj_original'', ''cnpj_normalizadoapi.1''] (rows df' ! 0) ''api_http_status'' = PInt 429
      \<and> row_get [''cnpj_normalizadoapi'', ''cnpj_normalizado'', ''api_success'',
        ''api_http_status'', ''api_error'', ''razao_social'', ''nome_fantasia'',
        ''data_abertura'', ''natureza_juridica'', ''porte_id'', ''porte_sigla'',
        ''porte_descricao'', ''cnae_principal_codigo'', ''cnae_principal_descricao'',
        ''endereco_logradouro'', ''endereco_numero'', ''endereco_complemento'',
        ''endereco_bairro'', ''endereco_cidade'', ''endereco_uf'', ''endereco_cep'',
        ''situacao_cadastral'', ''data_situacao_cadastral'', ''matriz_ou_filial'',
        ''cnpj_original'', ''cnpj_normalizadoapi.1''] (rows df' ! 0) ''api_error'' = PStr ''http_error_429'')"
proof -
  let ?srv = "(\<lambda>n url. (0, Response 429 (Some (PDict [(''message'', PStr ''Too Many Requests'')]))))"
  let ?df = "\<lparr>columns = [''cnpj_normalizadoapi'', ''cnpj_normalizado'', ''api_success'',
        ''api_http_status'', ''api_error'', ''razao_social'', ''nome_fantasia'',
        ''data_abertura'', ''natureza_juridica'', ''porte_id'', ''porte_sigla'',
        ''porte_descricao'', ''cnae_principal_codigo'', ''cnae_principal_descricao'',
        ''endereco_logradouro'', ''endereco_numero'', ''endereco_complemento'',
        ''endereco_bairro'', ''endereco_cidade'', ''endereco_uf'', ''endereco_cep'',
        ''situacao_cadastral'', ''data_situacao_cadastral'', ''matriz_ou_filial'',
        ''cnpj_original'', ''cnpj_normalizadoapi.1''],
          rows = [[PStr ''12.345.678/0001-95'', PStr ''12345678000195'', PStr ''False'',
         PStr ''500.0'', PStr ''http_error_500'', PNaN, PNaN, PNaN, PNaN, PNaN, PNaN,
         PNaN, PNaN, PNaN, PNaN, PNaN, PNaN, PNaN, PNaN, PNaN, PNaN, PNaN, PNaN, PNaN,
         PStr ''12.345.678/0001-95'', PStr ''12345678000195'']]\<rparr>"
  let ?cnpj = "row_get (columns ?df) (rows ?df ! 0) ''cnpj_normalizado''"
  let ?r = "\<lparr>success = False, error = Some ''http_error_429'', http_status = Some 429,
       data = PDict [(''message'', PStr ''Too Many Requests'')]\<rparr>"
  let ?w0 = "\<lparr>clock = 0, trace = []\<rparr>"
  have ok: "truthy ?cnpj"
    by code_simp
  have lim: "sleep_if_necessary 0 0 ?w0 = ((0, 0), ?w0)"
    by (simp add: sleep_if_necessary_def MAX_REQUESTS_PER_MINUTE_def)
  have f1: "fetch_cnpj_data ?srv ?cnpj 5 ?w0 = (?r, \<lparr>clock = 0, trace = [Get ''https://api.cnpja.com/office/12345678000195'']\<rparr>)"
    by code_simp
  have f2: "fetch_cnpj_data ?srv ?cnpj 5 (time_sleep 60 \<lparr>clock = 0, trace = [Get ''https://api.cnpja.com/office/12345678000195'']\<rparr>) =
      (?r, \<lparr>clock = 60, trace = [Get ''https://api.cnpja.com/office/12345678000195'', Sleep 60, Get ''https://api.cnpja.com/office/12345678000195'']\<rparr>)"
    by code_simp
  have f3: "fetch_cnpj_data ?srv ?cnpj 5
        (time_sleep 60 \<lparr>clock = 60, trace = [Get ''https://api.cnpja.com/office/12345678000195'', Sleep 60, Get ''https://api.cnpja.com/office/12345678000195'']\<rparr>) =
      (?r, \<lparr>clock = 120,
                  trace = [Get ''https://api.cnpja.com/office/12345678000195'', Sleep 60,
                           Get ''https://api.cnpja.com/office/12345678000195'', Sleep 60,
                           Get ''https://api.cnpja.com/office/12345678000195'']\<rparr>)"
    by code_simp
  have st: "http_status ?r = Some 429" by simp
  have fl: "flattens (data ?r)"
    by code_simp
  have sub: "set enrichment_columns \<subseteq> set (columns ?df)"
    by (simp add: enrichment_columns_def)
  have i: "0 < length (rows ?df)" and len: "length (rows ?df ! 0) = length (columns ?df)"
    by simp_all
  note t = drivers_record_third_429[OF ok lim f1 st f2 st f3 st fl]
  from t obtain rec0 where
    m: "main_row ?srv (columns ?df) 0 (rows ?df ! 0) (0, 0, ?w0) =
          Inr (rec0, 0 + 1, 0,
               time_sleep (1 / 2)
                 \<lparr>clock = 120,
                  trace = [Get ''https://api.cnpja.com/office/12345678000195'', Sleep 60,
                           Get ''https://api.cnpja.com/office/12345678000195'', Sleep 60,
                           Get ''https://api.cnpja.com/office/12345678000195'']\<rparr>)"
    and mr: "map_of rec0 ''api_success'' = Some (PBool False)"
      "map_of rec0 ''api_http_status'' = Some (PInt 429)"
      "map_of rec0 ''api_error'' = Some (PStr ''http_error_429'')"
    by blast
  from t sub i len obtain df' where
    r: "retry_row ?srv 0 (?df, 0, 0, ?w0) =
          Inr (df', 0 + 1, 0,
               \<lparr>clock = 120,
                  trace = [Get ''https://api.cnpja.com/office/12345678000195'', Sleep 60,
                           Get ''https://api.cnpja.com/office/12345678000195'', Sleep 60,
                           Get ''https://api.cnpja.com/office/12345678000195'']\<rparr>)"
    and rr: "row_get (columns ?df) (rows df' ! 0) ''api_success'' = PBool False"
      "row_get (columns ?df) (rows df' ! 0) ''api_http_status'' = PInt 429"
      "row_get (columns ?df) (rows df' ! 0) ''api_error'' = PStr ''http_error_429''"
    by blast
  have a: "\<exists>entry.
      main_row ?srv (columns ?df) 0 (rows ?df ! 0) (0, 0, ?w0) =
        Inr (entry, 1, 0,
             \<lparr>clock = 241 / 2,
              trace = [Get ''https://api.cnpja.com/office/12345678000195'', Sleep 60,
                       Get ''https://api.cnpja.com/office/12345678000195'', Sleep 60,
                       Get ''https://api.cnpja.com/office/12345678000195'', Sleep (1 / 2)]\<rparr>)
      \<and> map_of entry ''api_success'' = Some (PBool False)
      \<and> map_of entry ''api_http_status'' = Some (PInt 429)
      \<and> map_of entry ''api_error'' = Some (PStr ''http_error_429'')"
    using m mr by (intro exI[of _ rec0]) (simp add: time_sleep_def)
  have b: "\<exists>df'.
      retry_row ?srv 0 (?df, 0, 0, ?w0) =
        Inr (df', 1, 0,
             \<lparr>clock = 120,
                  trace = [Get ''https://api.cnpja.com/office/12345678000195'', Sleep 60,
                           Get ''https://api.cnpja.com/office/12345678000195'', Sleep 60,
                           Get ''https://api.cnpja.com/office/12345678000195'']\<rparr>)
      \<and> row_get (columns ?df) (rows df' ! 0) ''api_success'' = PBool False
      \<and> row_get (columns ?df) (rows df' ! 0) ''api_http_status'' = PInt 429
      \<and> row_get (columns ?df) (rows df' ! 0) ''api_error'' = PStr ''http_error_429''"
    using r rr by (intro exI[of _ df']) simp
  from a b show ?thesis by simp
qed

end
